theory Spec2Isabelle
  imports Complex_Main "HOL-Library.Multiset" "HOL-Library.Product_Lexorder"
begin

section \<open>Values shared by both selectors\<close>

text \<open>
  Elapsed times are Python floats. The code only ever builds them from differences of
  clock readings, sums, a division by a positive count, a multiplication by \<open>1.5\<close> and
  the literal \<open>float('inf')\<close>, so a float is modelled as a real number or the
  positive infinity \<open>PInf\<close> (rounding is not modelled; NaN and negative infinity are
  never produced by these operations).
\<close>

datatype pfloat = Fl real | PInf

instantiation pfloat :: linorder
begin

fun less_eq_pfloat :: "pfloat \<Rightarrow> pfloat \<Rightarrow> bool" where
  "less_eq_pfloat (Fl a) (Fl b) = (a \<le> b)"
| "less_eq_pfloat (Fl a) PInf = True"
| "less_eq_pfloat PInf (Fl b) = False"
| "less_eq_pfloat PInf PInf = True"

definition less_pfloat :: "pfloat \<Rightarrow> pfloat \<Rightarrow> bool" where
  "less_pfloat x y = (x \<le> y \<and> \<not> y \<le> x)"

instance
proof
  fix x y z :: pfloat
  show "(x < y) = (x \<le> y \<and> \<not> y \<le> x)"
    by (simp add: less_pfloat_def)
  show "x \<le> x"
    by (cases x) simp_all
  show "x \<le> y \<Longrightarrow> y \<le> z \<Longrightarrow> x \<le> z"
    by (cases x; cases y; cases z) simp_all
  show "x \<le> y \<Longrightarrow> y \<le> x \<Longrightarrow> x = y"
    by (cases x; cases y) simp_all
  show "x \<le> y \<or> y \<le> x"
    by (cases x; cases y) auto
qed

end

text \<open>\<open>a + b\<close>, \<open>sum(xs)\<close> (which starts from \<open>0\<close> and adds from the left) and \<open>a * c\<close>
  for a positive constant \<open>c\<close>, on floats.\<close>

fun fadd :: "pfloat \<Rightarrow> pfloat \<Rightarrow> pfloat" where
  "fadd (Fl a) (Fl b) = Fl (a + b)"
| "fadd (Fl a) PInf = PInf"
| "fadd PInf y = PInf"

definition fsum :: "pfloat list \<Rightarrow> pfloat" where
  "fsum xs = foldl fadd (Fl 0) xs"

fun fscale :: "pfloat \<Rightarrow> real \<Rightarrow> pfloat" where
  "fscale (Fl a) c = Fl (a * c)"
| "fscale PInf c = PInf"

fun is_finite :: "pfloat \<Rightarrow> bool" where
  "is_finite (Fl a) = True"
| "is_finite PInf = False"

text \<open>Exceptions that reach a caller in the model. \<open>KeyboardInterrupt\<close> is the only one
  that is not a subclass of \<open>Exception\<close>.\<close>

datatype exc = KeyError | ZeroDivisionError | ValueError | EOFError | KeyboardInterrupt

fun is_Exception :: "exc \<Rightarrow> bool" where
  "is_Exception KeyboardInterrupt = False"
| "is_Exception e = True"

text \<open>Python's true division raises on a zero divisor: \<open>x / n\<close> for a float and a
  length, and \<open>k / n\<close> for two ints.\<close>

definition fdiv :: "pfloat \<Rightarrow> nat \<Rightarrow> exc + pfloat" where
  "fdiv x n = (if n = 0 then Inl ZeroDivisionError
     else Inr (case x of Fl a \<Rightarrow> Fl (a / real n) | PInf \<Rightarrow> PInf))"

definition int_truediv :: "nat \<Rightarrow> nat \<Rightarrow> exc + real" where
  "int_truediv k n = (if n = 0 then Inl ZeroDivisionError else Inr (real k / real n))"

text \<open>
  The ways an external call (the \<open>nslookup\<close> subprocess, an HTTP request) fails. All of
  them are subclasses of \<open>Exception\<close>. An interrupt by the operator is modelled where
  the programs wait for the operator, at \<open>input()\<close>, and for a probe's external call in
  the section on the probes and the operator's interrupt.
\<close>

datatype failure = TimeoutExpired | SubprocessError | ConnectionError | OtherException

text \<open>What the programs do to the outside world, in the order they do it: the external
  calls, and the print statements that report a test, a failure, a recommendation or
  a prompt (banners, separators and the result tables are left out).\<close>

datatype event =
    Nslookup string string int
  | Http_get string "(string \<times> string) list" int
  | Print_testing string string
  | Print_server_ok string pfloat real
  | Print_server_failed string
  | Print_test_failed string exc
  | Print_no_working
  | Print_recommended string
  | Prompt nat
  | Print_cancelled
  | Print_selected string string
  | Print_out_of_range nat
  | Print_invalid
  | Print_conn_ok pfloat
  | Print_hub_ok pfloat
  | Print_hub_failed
  | Print_conn_failed
  | Print_summary string string bool bool
  | Print_failed_mirror string string string
  | Print_fastest string
  | Print_skipped
  | Prompt_confirm
  | Print_choose_again

subsection \<open>Strings\<close>

text \<open>\<open>needle in haystack\<close>, \<open>s.startswith(p)\<close>, \<open>s.rstrip('/')\<close>, \<open>s.strip()\<close> and
  \<open>s.lower()\<close>, on ASCII strings.\<close>

definition startswith :: "string \<Rightarrow> string \<Rightarrow> bool" where
  "startswith s p = (take (length p) s = p)"

fun contains :: "string \<Rightarrow> string \<Rightarrow> bool" where
  "contains needle [] = (needle = [])"
| "contains needle (c # cs) = (startswith (c # cs) needle \<or> contains needle cs)"

definition rstrip_slash :: "string \<Rightarrow> string" where
  "rstrip_slash s = rev (dropWhile (\<lambda>c. c = CHR ''/'') (rev s))"

definition is_space :: "char \<Rightarrow> bool" where
  "is_space c = (c \<in> set [CHR '' '', CHR 0x09, CHR 0x0A, CHR 0x0B, CHR 0x0C, CHR 0x0D,
     CHR 0x1C, CHR 0x1D, CHR 0x1E, CHR 0x1F])"

definition strip :: "string \<Rightarrow> string" where
  "strip s = rev (dropWhile is_space (rev (dropWhile is_space s)))"

definition lower_char :: "char \<Rightarrow> char" where
  "lower_char c = (case map_of (zip ''ABCDEFGHIJKLMNOPQRSTUVWXYZ''
       ''abcdefghijklmnopqrstuvwxyz'') c of Some d \<Rightarrow> d | None \<Rightarrow> c)"

definition lower :: "string \<Rightarrow> string" where
  "lower s = map lower_char s"

text \<open>
  \<open>int(s)\<close> on an already stripped ASCII string: an optional sign, then decimal digits,
  where single underscores may stand between digits; anything else raises
  \<open>ValueError\<close>.
\<close>

definition digit_of :: "char \<Rightarrow> nat option" where
  "digit_of c = map_of (zip ''0123456789'' [0, 1, 2, 3, 4, 5, 6, 7, 8, 9]) c"

fun digits :: "nat \<Rightarrow> string \<Rightarrow> nat option" where
  "digits acc [] = Some acc"
| "digits acc [c] = (if c = CHR ''_'' then None
     else (case digit_of c of None \<Rightarrow> None | Some d \<Rightarrow> Some (10 * acc + d)))"
| "digits acc (c # c' # cs) = (if c = CHR ''_''
     then (case digit_of c' of None \<Rightarrow> None | Some d \<Rightarrow> digits (10 * acc + d) cs)
     else (case digit_of c of None \<Rightarrow> None | Some d \<Rightarrow> digits (10 * acc + d) (c' # cs)))"

definition unsigned :: "string \<Rightarrow> nat option" where
  "unsigned s = (case s of [] \<Rightarrow> None
     | c # cs \<Rightarrow> (case digit_of c of None \<Rightarrow> None | Some d \<Rightarrow> digits d cs))"

definition py_int :: "string \<Rightarrow> exc + int" where
  "py_int s = (case s of
       [] \<Rightarrow> Inl ValueError
     | c # cs \<Rightarrow>
         if c = CHR ''-'' then (case unsigned cs of None \<Rightarrow> Inl ValueError | Some n \<Rightarrow> Inr (- int n))
         else if c = CHR ''+'' then (case unsigned cs of None \<Rightarrow> Inl ValueError | Some n \<Rightarrow> Inr (int n))
         else (case unsigned (c # cs) of None \<Rightarrow> Inl ValueError | Some n \<Rightarrow> Inr (int n)))"

section \<open>The DNS selector (dns_selector.py)\<close>

subsection \<open>The probe: \<open>_test_dns_resolution\<close>\<close>

text \<open>
  One run of \<open>subprocess.run(['nslookup', domain, dns_server], timeout=timeout)\<close>
  between two readings of \<open>time.time()\<close>: the reading before, what the call did (it
  completed with a return code and its standard output, or it raised), and the reading
  after. The resolver environment gives this for every server, domain and timeout.
\<close>

datatype proc_outcome = Completed int string | Raised failure

record timed_run =
  t_start :: real
  outcome :: proc_outcome
  t_end :: real

type_synonym resolver = "string \<Rightarrow> string \<Rightarrow> int \<Rightarrow> timed_run"

definition test_dns_resolution ::
  "resolver \<Rightarrow> string \<Rightarrow> string \<Rightarrow> int \<Rightarrow> (bool \<times> pfloat) \<times> event list" where
  "test_dns_resolution env dns_server domain timeout =
     (let run = env dns_server domain timeout;
          response_time = Fl (t_end run - t_start run)
      in (case outcome run of
            Completed returncode stdout \<Rightarrow>
              if returncode = 0 \<and> \<not> contains ''NXDOMAIN'' stdout
              then (True, response_time)
              else (False, PInf)
          | Raised TimeoutExpired \<Rightarrow> (False, PInf)
          | Raised SubprocessError \<Rightarrow> (False, PInf)
          | Raised _ \<Rightarrow> (False, PInf),
          [Nslookup domain dns_server timeout]))"

subsection \<open>The endpoint tester: \<open>_test_docker_connectivity\<close> and \<open>_test_dns_server\<close>\<close>

text \<open>An entry of \<open>docker_details\<close>; its \<open>time\<close> is the response time, or \<open>None\<close> for
  the string \<open>'timeout'\<close>.\<close>

record detail =
  d_domain :: string
  d_success :: bool
  d_time :: "pfloat option"

text \<open>The dictionary \<open>_test_docker_connectivity\<close> returns, and the dictionary
  \<open>_test_dns_server\<close> returns: its own keys, updated with the docker ones.\<close>

record docker_results =
  docker_success_count :: nat
  docker_total_time :: pfloat
  docker_avg_time :: pfloat
  docker_success_rate :: real
  docker_working :: bool
  docker_details :: "detail list"

record dns_result = docker_results +
  name :: string
  primary :: string
  secondary :: string
  success_count :: nat
  total_time :: pfloat
  avg_time :: pfloat
  success_rate :: real
  working :: bool

text \<open>A value of \<open>dns_servers\<close> in the configuration: a dictionary that may lack either
  key.\<close>

record server_info =
  info_primary :: "string option"
  info_secondary :: "string option"

record DNSSelector =
  dns_servers :: "(string \<times> server_info) list"
  test_domains :: "string list"
  docker_domains :: "string list"

text \<open>The object \<open>__init__\<close> builds from a loaded configuration.\<close>

definition init_selector :: "(string \<times> server_info) list \<Rightarrow> DNSSelector" where
  "init_selector servers = \<lparr> dns_servers = servers,
     test_domains = [''google.com'', ''github.com'', ''docker.com'', ''ubuntu.com''],
     docker_domains = [''download.docker.com'', ''registry-1.docker.io'', ''auth.docker.io''] \<rparr>"

text \<open>The loop over \<open>docker_domains\<close>; its state is the success count, the details, the
  times of the successful probes and the calls made.\<close>

fun docker_loop :: "resolver \<Rightarrow> string \<Rightarrow> int \<Rightarrow> string list
    \<Rightarrow> nat \<times> detail list \<times> pfloat list \<times> event list
    \<Rightarrow> nat \<times> detail list \<times> pfloat list \<times> event list" where
  "docker_loop env dns_server timeout [] st = st"
| "docker_loop env dns_server timeout (domain # rest) (cnt, details, successful, evs) =
     (case test_dns_resolution env dns_server domain timeout of
        ((success, response_time), ev) \<Rightarrow>
          let d = \<lparr> d_domain = domain, d_success = success,
                    d_time = (if success then Some response_time else None) \<rparr>
          in docker_loop env dns_server timeout rest
               (if success
                then (cnt + 1, details @ [d], successful @ [response_time], evs @ ev)
                else (cnt, details @ [d], successful, evs @ ev)))"

definition test_docker_connectivity ::
  "DNSSelector \<Rightarrow> resolver \<Rightarrow> string \<Rightarrow> int \<Rightarrow> (exc + docker_results) \<times> event list" where
  "test_docker_connectivity sel env dns_server timeout =
     (case docker_loop env dns_server timeout (docker_domains sel) (0, [], [], []) of
        (cnt, details, successful, evs) \<Rightarrow>
          (let r0 = \<lparr> docker_success_count = cnt, docker_total_time = Fl 0,
                      docker_avg_time = PInf, docker_success_rate = 0,
                      docker_working = False, docker_details = details \<rparr>
           in if successful \<noteq> [] then
                (case fdiv (fsum successful) (length successful) of
                   Inl e \<Rightarrow> Inl e
                 | Inr avg \<Rightarrow>
                     (case int_truediv cnt (length (docker_domains sel)) of
                        Inl e \<Rightarrow> Inl e
                      | Inr q \<Rightarrow>
                          Inr (r0\<lparr> docker_total_time := fsum successful,
                                   docker_avg_time := avg,
                                   docker_success_rate := q * 100,
                                   docker_working := (q * 100 \<ge> 66) \<rparr>)))
              else Inr r0,
           evs))"

text \<open>The loop over \<open>test_domains\<close>, always with the default timeout of 3 seconds.\<close>

fun general_loop :: "resolver \<Rightarrow> string \<Rightarrow> string list
    \<Rightarrow> nat \<times> pfloat list \<times> event list \<Rightarrow> nat \<times> pfloat list \<times> event list" where
  "general_loop env primary_dns [] st = st"
| "general_loop env primary_dns (domain # rest) (cnt, successful, evs) =
     (case test_dns_resolution env primary_dns domain 3 of
        ((success, response_time), ev) \<Rightarrow>
          general_loop env primary_dns rest
            (if success then (cnt + 1, successful @ [response_time], evs @ ev)
             else (cnt, successful, evs @ ev)))"

definition test_dns_server ::
  "DNSSelector \<Rightarrow> resolver \<Rightarrow> string \<Rightarrow> server_info \<Rightarrow> (exc + dns_result) \<times> event list" where
  "test_dns_server sel env server_name info =
     (case info_primary info of
        None \<Rightarrow> (Inl KeyError, [])
      | Some primary_dns \<Rightarrow>
          (let secondary_dns = (case info_secondary info of None \<Rightarrow> [] | Some s \<Rightarrow> s);
               evs0 = [Print_testing server_name primary_dns]
           in case general_loop env primary_dns (test_domains sel) (0, [], evs0) of
                (cnt, successful, evs1) \<Rightarrow>
                  (let general =
                         (if successful \<noteq> [] then
                            (case fdiv (fsum successful) (length successful) of
                               Inl e \<Rightarrow> Inl e
                             | Inr avg \<Rightarrow>
                                 (case int_truediv cnt (length (test_domains sel)) of
                                    Inl e \<Rightarrow> Inl e
                                  | Inr q \<Rightarrow> Inr (fsum successful, avg, q * 100, q * 100 \<ge> 50)))
                          else Inr (Fl 0, PInf, 0, False))
                   in case general of
                        Inl e \<Rightarrow> (Inl e, evs1)
                      | Inr (tot, avg, rate, ok) \<Rightarrow>
                          (case test_docker_connectivity sel env primary_dns 5 of
                             (Inl e, evs2) \<Rightarrow> (Inl e, evs1 @ evs2)
                           | (Inr docker, evs2) \<Rightarrow>
                               (Inr (docker_results.extend docker
                                  (dns_result.fields server_name primary_dns secondary_dns
                                     cnt tot avg rate ok)),
                                evs1 @ evs2)))))"

subsection \<open>The scheduler: \<open>test_all_dns_servers\<close>\<close>

text \<open>
  The loop over \<open>as_completed(future_to_server)\<close>. Each future carries the name it was
  submitted under and what \<open>_test_dns_server\<close> did: its result, or the exception
  \<open>future.result()\<close> raises again. A result is appended and reported; an \<open>Exception\<close>
  is reported only.
\<close>

fun collect_results :: "(string \<times> (exc + dns_result)) list \<Rightarrow> dns_result list \<times> event list
    \<Rightarrow> (exc + dns_result list) \<times> event list" where
  "collect_results [] (results, evs) = (Inr results, evs)"
| "collect_results ((server_name, Inr result) # rest) (results, evs) =
     collect_results rest
       (results @ [result],
        evs @ [if working result
               then Print_server_ok (name result) (avg_time result) (success_rate result)
               else Print_server_failed (name result)])"
| "collect_results ((server_name, Inl e) # rest) (results, evs) =
     (if is_Exception e
      then collect_results rest (results, evs @ [Print_test_failed server_name e])
      else (Inl e, evs))"

text \<open>
  The thread pool runs one \<open>_test_dns_server\<close> per item of \<open>dns_servers\<close>; the order in
  which they complete is not determined by the program. It is the parameter
  \<open>completion\<close>: the positions of the items of \<open>dns_servers\<close>, in the order their
  futures complete (a permutation of \<open>[0..<length (dns_servers sel)]\<close>). A pool of no
  workers is refused by \<open>ThreadPoolExecutor\<close> with \<open>ValueError\<close>. The events of the
  testers themselves interleave freely and are not part of the scheduler's own log.
\<close>

definition test_all_dns_servers ::
  "DNSSelector \<Rightarrow> resolver \<Rightarrow> int \<Rightarrow> nat list \<Rightarrow> (exc + dns_result list) \<times> event list" where
  "test_all_dns_servers sel env max_workers completion =
     (if max_workers \<le> 0 then (Inl ValueError, [])
      else collect_results
             (map (\<lambda>i. case dns_servers sel ! i of
                          (server_name, info) \<Rightarrow>
                            (server_name, fst (test_dns_server sel env server_name info)))
                  completion)
             ([], []))"

subsection \<open>Ranking and selection: \<open>select_dns_interactive\<close>\<close>

definition dns_sort_key :: "dns_result \<Rightarrow> bool \<times> pfloat \<times> pfloat" where
  "dns_sort_key x = (\<not> docker_working x, docker_avg_time x, avg_time x)"

text \<open>The list \<open>working_servers\<close> after the filter and the sort; \<open>list.sort\<close> is stable,
  as \<open>sort_key\<close> is.\<close>

definition working_servers :: "dns_result list \<Rightarrow> dns_result list" where
  "working_servers results = sort_key dns_sort_key (filter working results)"

definition docker_working_servers :: "dns_result list \<Rightarrow> dns_result list" where
  "docker_working_servers results = filter docker_working results"

text \<open>
  What \<open>input()\<close> yields, one element per call: a line the operator typed, or an
  interrupt (\<open>KeyboardInterrupt\<close>). The end of the list is the end of the input, where
  \<open>input()\<close> raises \<open>EOFError\<close>.
\<close>

datatype input_event = Line string | Interrupt

text \<open>The \<open>while True\<close> loop of \<open>select_dns_interactive\<close>. It handles \<open>ValueError\<close> and
  \<open>KeyboardInterrupt\<close>; any other exception leaves the function.\<close>

fun dns_choose :: "dns_result list \<Rightarrow> input_event list \<Rightarrow> event list
    \<Rightarrow> (exc + (string \<times> string) option) \<times> event list" where
  "dns_choose ws [] evs = (Inl EOFError, evs @ [Prompt (length ws)])"
| "dns_choose ws (Interrupt # rest) evs =
     (Inr None, evs @ [Prompt (length ws), Print_cancelled])"
| "dns_choose ws (Line l # rest) evs =
     (let choice = lower (strip l); evs1 = evs @ [Prompt (length ws)]
      in if choice = ''q'' then (Inr None, evs1 @ [Print_cancelled])
         else (case py_int choice of
                 Inl e \<Rightarrow>
                   if e = ValueError then dns_choose ws rest (evs1 @ [Print_invalid])
                   else if e = KeyboardInterrupt then (Inr None, evs1 @ [Print_cancelled])
                   else (Inl e, evs1)
               | Inr choice_num \<Rightarrow>
                   if 1 \<le> choice_num \<and> choice_num \<le> int (length ws)
                   then (let selected = ws ! nat (choice_num - 1)
                         in (Inr (Some (primary selected, secondary selected)),
                             evs1 @ [Print_selected (name selected) (primary selected)]))
                   else dns_choose ws rest (evs1 @ [Print_out_of_range (length ws)])))"

definition select_dns_interactive ::
  "DNSSelector \<Rightarrow> resolver \<Rightarrow> nat list \<Rightarrow> input_event list
    \<Rightarrow> (exc + (string \<times> string) option) \<times> event list" where
  "select_dns_interactive sel env completion stdin =
     (case test_all_dns_servers sel env 5 completion of
        (Inl e, evs) \<Rightarrow> (Inl e, evs)
      | (Inr results, evs) \<Rightarrow>
          if filter working results = [] then (Inr None, evs @ [Print_no_working])
          else dns_choose (working_servers results) stdin
                 (evs @ (case docker_working_servers results of
                           [] \<Rightarrow> []
                         | best_docker # _ \<Rightarrow> [Print_recommended (name best_docker)])))"

section \<open>The registry mirror selector (mirror_selector.py)\<close>

subsection \<open>The probes: \<open>_test_registry_connectivity\<close> and \<open>_test_docker_hub_connectivity\<close>\<close>

text \<open>One \<open>requests.get(url, headers=..., timeout=timeout, verify=False)\<close> between two
  readings of \<open>time.time()\<close>: it answers with a status code, or it raises.\<close>

datatype http_outcome = Response int | Request_failed failure

record timed_request =
  q_start :: real
  q_outcome :: http_outcome
  q_end :: real

type_synonym web = "string \<Rightarrow> (string \<times> string) list \<Rightarrow> int \<Rightarrow> timed_request"

definition test_registry_connectivity ::
  "web \<Rightarrow> string \<Rightarrow> int \<Rightarrow> (bool \<times> pfloat) \<times> event list" where
  "test_registry_connectivity net mirror_url timeout =
     (let test_url = rstrip_slash mirror_url;
          test_url = (if \<not> startswith test_url ''http'' then ''https://'' @ test_url
                      else test_url);
          url = test_url @ ''/v2/'';
          req = net url [] timeout;
          response_time = Fl (q_end req - q_start req)
      in (case q_outcome req of
            Response status_code \<Rightarrow>
              if status_code \<in> set [200, 401, 404] then (True, response_time)
              else (False, PInf)
          | Request_failed _ \<Rightarrow> (False, PInf),
          [Http_get url [] timeout]))"

definition test_docker_hub_connectivity ::
  "web \<Rightarrow> string \<Rightarrow> int \<Rightarrow> (bool \<times> pfloat) \<times> event list" where
  "test_docker_hub_connectivity net mirror_url timeout =
     (let test_url = rstrip_slash mirror_url;
          test_url = (if \<not> startswith test_url ''http'' then ''https://'' @ test_url
                      else test_url);
          url = test_url @ ''/v2/library/hello-world/manifests/latest'';
          headers = [(''Accept'', ''application/vnd.docker.distribution.manifest.v2+json'')];
          req = net url headers timeout;
          response_time = Fl (q_end req - q_start req)
      in (case q_outcome req of
            Response status_code \<Rightarrow>
              if status_code \<in> set [200, 401, 404] then (True, response_time)
              else (False, PInf)
          | Request_failed _ \<Rightarrow> (False, PInf),
          [Http_get url headers timeout]))"

subsection \<open>The endpoint tester: \<open>_test_single_registry\<close>\<close>

record registry =
  reg_name :: string
  reg_mirror :: string
  reg_insecure :: bool

record registry_result =
  mirror_name :: string
  mirror :: string
  insecure :: bool
  connectivity_success :: bool
  connectivity_time :: pfloat
  hub_success :: bool
  hub_time :: pfloat
  total_score :: pfloat
  status :: string

definition test_single_registry :: "web \<Rightarrow> registry \<Rightarrow> registry_result \<times> event list" where
  "test_single_registry net reg =
     (let results = \<lparr> mirror_name = reg_name reg, mirror = reg_mirror reg,
                       insecure = reg_insecure reg,
                       connectivity_success = False, connectivity_time = PInf,
                       hub_success = False, hub_time = PInf,
                       total_score = PInf, status = ''Failed'' \<rparr>;
          evs0 = [Print_testing (reg_name reg) (reg_mirror reg)]
      in case test_registry_connectivity net (reg_mirror reg) 10 of
           ((conn_success, conn_time), ev1) \<Rightarrow>
             (let results = results\<lparr> connectivity_success := conn_success,
                                      connectivity_time := conn_time \<rparr>
              in if conn_success then
                   (case test_docker_hub_connectivity net (reg_mirror reg) 15 of
                      ((hub_ok, hub_t), ev2) \<Rightarrow>
                        (let results = results\<lparr> hub_success := hub_ok, hub_time := hub_t \<rparr>
                         in if hub_ok
                            then (results\<lparr> total_score := fadd conn_time (fscale hub_t 1.5),
                                           status := ''Working'' \<rparr>,
                                  evs0 @ ev1 @ [Print_conn_ok conn_time] @ ev2 @ [Print_hub_ok hub_t])
                            else (results\<lparr> status := ''Hub Access Failed'' \<rparr>,
                                  evs0 @ ev1 @ [Print_conn_ok conn_time] @ ev2 @ [Print_hub_failed])))
                 else (results\<lparr> status := ''Connection Failed'' \<rparr>,
                       evs0 @ ev1 @ [Print_conn_failed])))"

text \<open>The sequential loop of \<open>test_all_registries\<close>.\<close>

fun test_all_registries :: "web \<Rightarrow> registry list \<Rightarrow> registry_result list \<times> event list" where
  "test_all_registries net [] = ([], [])"
| "test_all_registries net (reg # rest) =
     (case test_single_registry net reg of
        (result, ev) \<Rightarrow>
          (case test_all_registries net rest of
             (results, evs) \<Rightarrow> (result # results, ev @ evs)))"

subsection \<open>Ranking and selection: \<open>display_results_and_choose\<close>\<close>

definition working_results :: "registry_result list \<Rightarrow> registry_result list" where
  "working_results results = sort_key total_score (filter (\<lambda>r. status r = ''Working'') results)"

definition failed_results :: "registry_result list \<Rightarrow> registry_result list" where
  "failed_results results = filter (\<lambda>r. status r \<noteq> ''Working'') results"

text \<open>The \<open>while True\<close> loop of \<open>display_results_and_choose\<close>. Only \<open>ValueError\<close> is
  handled, and only around the conversion and the confirmation.\<close>

fun registry_choose :: "registry_result list \<Rightarrow> input_event list \<Rightarrow> event list
    \<Rightarrow> (exc + registry_result option) \<times> event list" where
  "registry_choose ws [] evs = (Inl EOFError, evs @ [Prompt (length ws)])"
| "registry_choose ws (Interrupt # rest) evs = (Inl KeyboardInterrupt, evs @ [Prompt (length ws)])"
| "registry_choose ws (Line l # rest) evs =
     (let choice = lower (strip l); evs1 = evs @ [Prompt (length ws)]
      in if choice = ''q'' then (Inr None, evs1 @ [Print_cancelled])
         else if choice = ''0'' then (Inr None, evs1 @ [Print_skipped])
         else (case py_int choice of
                 Inl e \<Rightarrow>
                   if e = ValueError then registry_choose ws rest (evs1 @ [Print_invalid])
                   else (Inl e, evs1)
               | Inr choice_num \<Rightarrow>
                   if 1 \<le> choice_num \<and> choice_num \<le> int (length ws)
                   then (let selected = ws ! nat (choice_num - 1);
                             evs2 = evs1 @ [Print_selected (mirror_name selected) (mirror selected),
                                            Prompt_confirm]
                         in case rest of
                              [] \<Rightarrow> (Inl EOFError, evs2)
                            | Interrupt # _ \<Rightarrow> (Inl KeyboardInterrupt, evs2)
                            | Line c # rest' \<Rightarrow>
                                if lower (strip c) \<in> set [''y'', ''yes'']
                                then (Inr (Some selected), evs2)
                                else registry_choose ws rest' (evs2 @ [Print_choose_again]))
                   else registry_choose ws rest (evs1 @ [Print_out_of_range (length ws)])))"

text \<open>The part of \<open>display_results_and_choose\<close> that shows the current Docker
  configuration only prints, inside a handler that swallows everything, and is left
  out.\<close>

definition display_results_and_choose ::
  "registry_result list \<Rightarrow> input_event list \<Rightarrow> (exc + registry_result option) \<times> event list" where
  "display_results_and_choose results stdin =
     (if working_results results = []
      then (Inr None,
            Print_no_working #
            map (\<lambda>r. Print_summary (mirror_name r) (mirror r)
                       (connectivity_success r) (hub_success r)) results)
      else registry_choose (working_results results) stdin
             (map (\<lambda>r. Print_failed_mirror (mirror_name r) (mirror r) (status r))
                  (failed_results results)
              @ (case working_results results of
                   [] \<Rightarrow> []
                 | best_mirror # _ \<Rightarrow> [Print_fastest (mirror_name best_mirror)])))"

section \<open>The probes and the operator's interrupt\<close>

text \<open>
  The handlers of the three probes end in \<open>except Exception\<close>. \<open>KeyboardInterrupt\<close>
  derives from \<open>BaseException\<close> only, so when the operator interrupts the program while
  a probe waits in its external call, no handler of the probe applies and the exception
  leaves the probe. An external call that may be interrupted either is interrupted or
  runs, to a return or to one of the failures above; when it runs, the probe does what
  its definition above says for that run.
\<close>

datatype 'a attempt = Interrupted | Ran 'a

definition test_dns_resolution_or_interrupt ::
  "(string \<Rightarrow> string \<Rightarrow> int \<Rightarrow> timed_run attempt) \<Rightarrow> string \<Rightarrow> string \<Rightarrow> int
    \<Rightarrow> exc + ((bool \<times> pfloat) \<times> event list)" where
  "test_dns_resolution_or_interrupt env dns_server domain timeout =
     (case env dns_server domain timeout of
        Interrupted \<Rightarrow> Inl KeyboardInterrupt
      | Ran run \<Rightarrow> Inr (test_dns_resolution (\<lambda>s d t. run) dns_server domain timeout))"

definition test_registry_connectivity_or_interrupt ::
  "(string \<Rightarrow> (string \<times> string) list \<Rightarrow> int \<Rightarrow> timed_request attempt) \<Rightarrow> string \<Rightarrow> int
    \<Rightarrow> exc + ((bool \<times> pfloat) \<times> event list)" where
  "test_registry_connectivity_or_interrupt net mirror_url timeout =
     (let test_url = rstrip_slash mirror_url;
          test_url = (if \<not> startswith test_url ''http'' then ''https://'' @ test_url
                      else test_url)
      in case net (test_url @ ''/v2/'') [] timeout of
           Interrupted \<Rightarrow> Inl KeyboardInterrupt
         | Ran req \<Rightarrow> Inr (test_registry_connectivity (\<lambda>u h t. req) mirror_url timeout))"

definition test_docker_hub_connectivity_or_interrupt ::
  "(string \<Rightarrow> (string \<times> string) list \<Rightarrow> int \<Rightarrow> timed_request attempt) \<Rightarrow> string \<Rightarrow> int
    \<Rightarrow> exc + ((bool \<times> pfloat) \<times> event list)" where
  "test_docker_hub_connectivity_or_interrupt net mirror_url timeout =
     (let test_url = rstrip_slash mirror_url;
          test_url = (if \<not> startswith test_url ''http'' then ''https://'' @ test_url
                      else test_url)
      in case net (test_url @ ''/v2/library/hello-world/manifests/latest'')
                [(''Accept'', ''application/vnd.docker.distribution.manifest.v2+json'')] timeout of
           Interrupted \<Rightarrow> Inl KeyboardInterrupt
         | Ran req \<Rightarrow> Inr (test_docker_hub_connectivity (\<lambda>u h t. req) mirror_url timeout))"

section \<open>Notions used to state the properties\<close>

text \<open>The response times of the successful probes of a battery, its detail entries and
  the lookups it issues, for a server address, a timeout and a list of domains; the
  average and the success rate the testers compute from them.\<close>

definition successes :: "resolver \<Rightarrow> string \<Rightarrow> int \<Rightarrow> string list \<Rightarrow> pfloat list" where
  "successes env p t ds =
     map snd (filter fst (map (\<lambda>d. fst (test_dns_resolution env p d t)) ds))"

definition details_of :: "resolver \<Rightarrow> string \<Rightarrow> int \<Rightarrow> string list \<Rightarrow> detail list" where
  "details_of env p t ds =
     map (\<lambda>d. case fst (test_dns_resolution env p d t) of
                 (b, rt) \<Rightarrow> \<lparr> d_domain = d, d_success = b,
                              d_time = (if b then Some rt else None) \<rparr>) ds"

definition lookups :: "string \<Rightarrow> int \<Rightarrow> string list \<Rightarrow> event list" where
  "lookups p t ds = map (\<lambda>d. Nslookup d p t) ds"

definition favg :: "pfloat list \<Rightarrow> pfloat" where
  "favg S = (case fsum S of Fl a \<Rightarrow> Fl (a / real (length S)) | PInf \<Rightarrow> PInf)"

definition rate :: "pfloat list \<Rightarrow> string list \<Rightarrow> real" where
  "rate S ds = real (length S) / real (length ds) * 100"

text \<open>The two requests the registry probes send for a mirror.\<close>

definition base_url :: "string \<Rightarrow> string" where
  "base_url m = (if \<not> startswith (rstrip_slash m) ''http'' then ''https://'' @ rstrip_slash m
                 else rstrip_slash m)"

definition manifest_headers :: "(string \<times> string) list" where
  "manifest_headers = [(''Accept'', ''application/vnd.docker.distribution.manifest.v2+json'')]"

definition v2_request :: "web \<Rightarrow> string \<Rightarrow> int \<Rightarrow> timed_request" where
  "v2_request net m tmo = net (base_url m @ ''/v2/'') [] tmo"

definition manifest_request :: "web \<Rightarrow> string \<Rightarrow> int \<Rightarrow> timed_request" where
  "manifest_request net m tmo =
     net (base_url m @ ''/v2/library/hello-world/manifests/latest'') manifest_headers tmo"

text \<open>What the scheduler submits for an item of \<open>dns_servers\<close>, the records of the
  futures that returned, and the line printed for a future.\<close>

definition submit :: "DNSSelector \<Rightarrow> resolver \<Rightarrow> string \<times> server_info \<Rightarrow> string \<times> (exc + dns_result)" where
  "submit sel env item =
     (case item of (server_name, info) \<Rightarrow>
        (server_name, fst (test_dns_server sel env server_name info)))"

definition returned :: "(string \<times> (exc + dns_result)) list \<Rightarrow> dns_result list" where
  "returned futs = map (\<lambda>f. projr (snd f)) (filter (\<lambda>f. \<not> isl (snd f)) futs)"

definition report :: "string \<times> (exc + dns_result) \<Rightarrow> event" where
  "report f = (case f of
       (server_name, Inr r) \<Rightarrow>
         if working r then Print_server_ok (name r) (avg_time r) (success_rate r)
         else Print_server_failed (name r)
     | (server_name, Inl e) \<Rightarrow> Print_test_failed server_name e)"

text \<open>An operator's line that is neither the quit token nor an index into a ranked list
  of \<open>n\<close> entries, and the message the selectors print for it.\<close>

definition invalid_choice :: "nat \<Rightarrow> string \<Rightarrow> bool" where
  "invalid_choice n l =
     (lower (strip l) \<noteq> ''q'' \<and>
      (case py_int (lower (strip l)) of
         Inl e \<Rightarrow> True
       | Inr k \<Rightarrow> \<not> (1 \<le> k \<and> k \<le> int n)))"

definition complaint :: "nat \<Rightarrow> string \<Rightarrow> event" where
  "complaint n l =
     (case py_int (lower (strip l)) of
        Inl e \<Rightarrow> Print_invalid
      | Inr k \<Rightarrow> Print_out_of_range n)"

definition reprompts :: "nat \<Rightarrow> string list \<Rightarrow> event list" where
  "reprompts n ls = concat (map (\<lambda>l. [Prompt n, complaint n l]) ls)"

section \<open>Properties\<close>

subsection \<open>Input parsing\<close>

lemma py_int_examples:
  "py_int ''12'' = Inr 12 \<and> py_int ''-3'' = Inr (- 3) \<and> py_int ''1_0'' = Inr 10
   \<and> py_int ''1__0'' = Inl ValueError \<and> py_int ''abc'' = Inl ValueError
   \<and> py_int '''' = Inl ValueError \<and> py_int ''7_'' = Inl ValueError
   \<and> lower (strip '' Q '') = ''q''"
  by (simp add: py_int_def unsigned_def digit_of_def lower_def strip_def is_space_def lower_char_def)

subsection \<open>The probes\<close>

lemma snd_test_dns_resolution:
  "snd (test_dns_resolution env s d t) = [Nslookup d s t]"
  by (simp add: test_dns_resolution_def Let_def)

lemma dns_probe_cases:
  "fst (test_dns_resolution env s d tmo) = (False, PInf) \<or>
   fst (test_dns_resolution env s d tmo) = (True, Fl (t_end (env s d tmo) - t_start (env s d tmo)))"
  by (simp add: test_dns_resolution_def Let_def split: proc_outcome.splits failure.splits)

lemma dns_probe_raised:
  "outcome (env s d tmo) = Raised f \<Longrightarrow> fst (test_dns_resolution env s d tmo) = (False, PInf)"
  by (simp add: test_dns_resolution_def Let_def split: failure.splits)

lemma dns_probe_completed:
  "outcome (env s d tmo) = Completed rc out \<Longrightarrow>
   fst (test_dns_resolution env s d tmo) =
     (if rc = 0 \<and> \<not> contains ''NXDOMAIN'' out
      then (True, Fl (t_end (env s d tmo) - t_start (env s d tmo))) else (False, PInf))"
  by (simp add: test_dns_resolution_def Let_def)

lemma registry_probe_eq:
  "test_registry_connectivity net m tmo =
     (case q_outcome (v2_request net m tmo) of
        Response code \<Rightarrow>
          if code = 200 \<or> code = 401 \<or> code = 404
          then (True, Fl (q_end (v2_request net m tmo) - q_start (v2_request net m tmo)))
          else (False, PInf)
      | Request_failed f \<Rightarrow> (False, PInf),
      [Http_get (base_url m @ ''/v2/'') [] tmo])"
  by (simp add: test_registry_connectivity_def v2_request_def base_url_def Let_def
      split: http_outcome.splits)

lemma hub_probe_eq:
  "test_docker_hub_connectivity net m tmo =
     (case q_outcome (manifest_request net m tmo) of
        Response code \<Rightarrow>
          if code = 200 \<or> code = 401 \<or> code = 404
          then (True, Fl (q_end (manifest_request net m tmo)
                          - q_start (manifest_request net m tmo)))
          else (False, PInf)
      | Request_failed f \<Rightarrow> (False, PInf),
      [Http_get (base_url m @ ''/v2/library/hello-world/manifests/latest'')
         manifest_headers tmo])"
  by (simp add: test_docker_hub_connectivity_def manifest_request_def base_url_def
      manifest_headers_def Let_def split: http_outcome.splits)

lemma shape_facts:
  "r = (False, PInf) \<or> r = (True, Fl (e - s)) \<Longrightarrow>
   (\<forall>t. r = (True, Fl t) \<longrightarrow> (0 \<le> t \<longleftrightarrow> s \<le> e))
   \<and> r \<noteq> (True, PInf) \<and> (\<forall>t. r \<noteq> (False, Fl t))"
  by auto

lemma interruptible_probes:
  "test_dns_resolution_or_interrupt envi s d tmo =
     (case envi s d tmo of
        Interrupted \<Rightarrow> Inl KeyboardInterrupt
      | Ran run \<Rightarrow> Inr (test_dns_resolution (\<lambda>s d t. run) s d tmo))"
  "test_registry_connectivity_or_interrupt neti m tmo =
     (case neti (base_url m @ ''/v2/'') [] tmo of
        Interrupted \<Rightarrow> Inl KeyboardInterrupt
      | Ran req \<Rightarrow> Inr (test_registry_connectivity (\<lambda>u h t. req) m tmo))"
  "test_docker_hub_connectivity_or_interrupt neti m tmo =
     (case neti (base_url m @ ''/v2/library/hello-world/manifests/latest'') manifest_headers tmo of
        Interrupted \<Rightarrow> Inl KeyboardInterrupt
      | Ran req \<Rightarrow> Inr (test_docker_hub_connectivity (\<lambda>u h t. req) m tmo))"
  by (simp_all add: test_dns_resolution_or_interrupt_def
      test_registry_connectivity_or_interrupt_def test_docker_hub_connectivity_or_interrupt_def
      base_url_def manifest_headers_def Let_def)

text \<open>
  C3, as the code has it. For every behaviour of its external call that is a return or
  a failure (an \<open>Exception\<close>), each of the three probes returns a result, and that
  result is \<open>(False, inf)\<close> or \<open>(True, t)\<close> with \<open>t\<close> the difference of the two readings
  of the wall clock: never \<open>(True, inf)\<close>, never \<open>(False, finite)\<close>, and \<open>t\<close> finite and
  not negative exactly when the clock did not step back between the readings. Every
  failure of the call (a timeout, a connection error, any other exception), a non-zero
  return code or an \<open>NXDOMAIN\<close> answer of \<open>nslookup\<close>, and an HTTP status other than
  200, 401 and 404 give \<open>(False, inf)\<close>. A probe raises to its caller exactly when the
  operator interrupts its external call, and what it raises is \<open>KeyboardInterrupt\<close>;
  when the call runs, the probe returns the result above.
\<close>

theorem probe_result_shape:
  "(fst (test_dns_resolution env s d tmo) = (False, PInf) \<or>
      fst (test_dns_resolution env s d tmo)
        = (True, Fl (t_end (env s d tmo) - t_start (env s d tmo))))
   \<and> (\<forall>t. fst (test_dns_resolution env s d tmo) = (True, Fl t) \<longrightarrow>
         (0 \<le> t \<longleftrightarrow> t_start (env s d tmo) \<le> t_end (env s d tmo)))
   \<and> (\<forall>f. outcome (env s d tmo) = Raised f \<longrightarrow>
        fst (test_dns_resolution env s d tmo) = (False, PInf))
   \<and> (fst (test_registry_connectivity net m tmo) = (False, PInf) \<or>
      fst (test_registry_connectivity net m tmo)
        = (True, Fl (q_end (v2_request net m tmo) - q_start (v2_request net m tmo))))
   \<and> (\<forall>t. fst (test_registry_connectivity net m tmo) = (True, Fl t) \<longrightarrow>
         (0 \<le> t \<longleftrightarrow> q_start (v2_request net m tmo) \<le> q_end (v2_request net m tmo)))
   \<and> (\<forall>f. q_outcome (v2_request net m tmo) = Request_failed f \<longrightarrow>
        fst (test_registry_connectivity net m tmo) = (False, PInf))
   \<and> (fst (test_docker_hub_connectivity net m tmo) = (False, PInf) \<or>
      fst (test_docker_hub_connectivity net m tmo)
        = (True, Fl (q_end (manifest_request net m tmo) - q_start (manifest_request net m tmo))))
   \<and> (\<forall>t. fst (test_docker_hub_connectivity net m tmo) = (True, Fl t) \<longrightarrow>
         (0 \<le> t \<longleftrightarrow> q_start (manifest_request net m tmo)
                       \<le> q_end (manifest_request net m tmo)))
   \<and> (\<forall>f. q_outcome (manifest_request net m tmo) = Request_failed f \<longrightarrow>
        fst (test_docker_hub_connectivity net m tmo) = (False, PInf))
   \<and> (\<forall>rc out. outcome (env s d tmo) = Completed rc out
          \<and> (rc \<noteq> 0 \<or> contains ''NXDOMAIN'' out) \<longrightarrow>
        fst (test_dns_resolution env s d tmo) = (False, PInf))
   \<and> (\<forall>code. q_outcome (v2_request net m tmo) = Response code
          \<and> code \<noteq> 200 \<and> code \<noteq> 401 \<and> code \<noteq> 404 \<longrightarrow>
        fst (test_registry_connectivity net m tmo) = (False, PInf))
   \<and> (\<forall>code. q_outcome (manifest_request net m tmo) = Response code
          \<and> code \<noteq> 200 \<and> code \<noteq> 401 \<and> code \<noteq> 404 \<longrightarrow>
        fst (test_docker_hub_connectivity net m tmo) = (False, PInf))
   \<and> (\<forall>r \<in> {fst (test_dns_resolution env s d tmo), fst (test_registry_connectivity net m tmo),
              fst (test_docker_hub_connectivity net m tmo)}.
         r \<noteq> (True, PInf) \<and> (\<forall>t. r \<noteq> (False, Fl t)))
   \<and> (\<forall>run. envi s d tmo = Ran run \<longrightarrow>
         test_dns_resolution_or_interrupt envi s d tmo
           = Inr (test_dns_resolution (\<lambda>s d t. run) s d tmo))
   \<and> (\<forall>e. test_dns_resolution_or_interrupt envi s d tmo = Inl e \<longleftrightarrow>
         e = KeyboardInterrupt \<and> envi s d tmo = Interrupted)
   \<and> (\<forall>req. neti (base_url m @ ''/v2/'') [] tmo = Ran req \<longrightarrow>
         test_registry_connectivity_or_interrupt neti m tmo
           = Inr (test_registry_connectivity (\<lambda>u h t. req) m tmo))
   \<and> (\<forall>e. test_registry_connectivity_or_interrupt neti m tmo = Inl e \<longleftrightarrow>
         e = KeyboardInterrupt \<and> neti (base_url m @ ''/v2/'') [] tmo = Interrupted)
   \<and> (\<forall>req. neti (base_url m @ ''/v2/library/hello-world/manifests/latest'')
                manifest_headers tmo = Ran req \<longrightarrow>
         test_docker_hub_connectivity_or_interrupt neti m tmo
           = Inr (test_docker_hub_connectivity (\<lambda>u h t. req) m tmo))
   \<and> (\<forall>e. test_docker_hub_connectivity_or_interrupt neti m tmo = Inl e \<longleftrightarrow>
         e = KeyboardInterrupt
         \<and> neti (base_url m @ ''/v2/library/hello-world/manifests/latest'')
              manifest_headers tmo = Interrupted)"
proof -
  have dns_p: "\<forall>rc out. outcome (env s d tmo) = Completed rc out
          \<and> (rc \<noteq> 0 \<or> contains ''NXDOMAIN'' out) \<longrightarrow>
        fst (test_dns_resolution env s d tmo) = (False, PInf)"
    by (auto simp add: dns_probe_completed)
  have reg_p: "\<forall>code. q_outcome (v2_request net m tmo) = Response code
          \<and> code \<noteq> 200 \<and> code \<noteq> 401 \<and> code \<noteq> 404 \<longrightarrow>
        fst (test_registry_connectivity net m tmo) = (False, PInf)"
    by (simp add: registry_probe_eq)
  have hub_p: "\<forall>code. q_outcome (manifest_request net m tmo) = Response code
          \<and> code \<noteq> 200 \<and> code \<noteq> 401 \<and> code \<noteq> 404 \<longrightarrow>
        fst (test_docker_hub_connectivity net m tmo) = (False, PInf)"
    by (simp add: hub_probe_eq)
  have dns: "fst (test_dns_resolution env s d tmo) = (False, PInf) \<or>
      fst (test_dns_resolution env s d tmo)
        = (True, Fl (t_end (env s d tmo) - t_start (env s d tmo)))"
    by (rule dns_probe_cases)
  have reg: "fst (test_registry_connectivity net m tmo) = (False, PInf) \<or>
      fst (test_registry_connectivity net m tmo)
        = (True, Fl (q_end (v2_request net m tmo) - q_start (v2_request net m tmo)))"
    by (simp add: registry_probe_eq split: http_outcome.splits)
  have hub: "fst (test_docker_hub_connectivity net m tmo) = (False, PInf) \<or>
      fst (test_docker_hub_connectivity net m tmo)
        = (True, Fl (q_end (manifest_request net m tmo) - q_start (manifest_request net m tmo)))"
    by (simp add: hub_probe_eq split: http_outcome.splits)
  have dns_f: "\<forall>f. outcome (env s d tmo) = Raised f \<longrightarrow>
        fst (test_dns_resolution env s d tmo) = (False, PInf)"
    by (simp add: dns_probe_raised)
  have reg_f: "\<forall>f. q_outcome (v2_request net m tmo) = Request_failed f \<longrightarrow>
        fst (test_registry_connectivity net m tmo) = (False, PInf)"
    by (simp add: registry_probe_eq)
  have hub_f: "\<forall>f. q_outcome (manifest_request net m tmo) = Request_failed f \<longrightarrow>
        fst (test_docker_hub_connectivity net m tmo) = (False, PInf)"
    by (simp add: hub_probe_eq)
  have dns_t: "\<forall>t. fst (test_dns_resolution env s d tmo) = (True, Fl t) \<longrightarrow>
         (0 \<le> t \<longleftrightarrow> t_start (env s d tmo) \<le> t_end (env s d tmo))"
    using shape_facts [OF dns] by simp
  have reg_t: "\<forall>t. fst (test_registry_connectivity net m tmo) = (True, Fl t) \<longrightarrow>
         (0 \<le> t \<longleftrightarrow> q_start (v2_request net m tmo) \<le> q_end (v2_request net m tmo))"
    using shape_facts [OF reg] by simp
  have hub_t: "\<forall>t. fst (test_docker_hub_connectivity net m tmo) = (True, Fl t) \<longrightarrow>
         (0 \<le> t \<longleftrightarrow> q_start (manifest_request net m tmo)
                       \<le> q_end (manifest_request net m tmo))"
    using shape_facts [OF hub] by simp
  have excl: "\<forall>r \<in> {fst (test_dns_resolution env s d tmo), fst (test_registry_connectivity net m tmo),
              fst (test_docker_hub_connectivity net m tmo)}.
         r \<noteq> (True, PInf) \<and> (\<forall>t. r \<noteq> (False, Fl t))"
    using shape_facts [OF dns] shape_facts [OF reg] shape_facts [OF hub] by simp
  have dns_r: "\<forall>run. envi s d tmo = Ran run \<longrightarrow>
         test_dns_resolution_or_interrupt envi s d tmo
           = Inr (test_dns_resolution (\<lambda>s d t. run) s d tmo)"
    by (simp add: interruptible_probes(1))
  have dns_i: "\<forall>e. test_dns_resolution_or_interrupt envi s d tmo = Inl e \<longleftrightarrow>
         e = KeyboardInterrupt \<and> envi s d tmo = Interrupted"
    by (auto simp add: interruptible_probes(1) split: attempt.splits)
  have reg_r: "\<forall>req. neti (base_url m @ ''/v2/'') [] tmo = Ran req \<longrightarrow>
         test_registry_connectivity_or_interrupt neti m tmo
           = Inr (test_registry_connectivity (\<lambda>u h t. req) m tmo)"
    by (simp add: interruptible_probes(2))
  have reg_i: "\<forall>e. test_registry_connectivity_or_interrupt neti m tmo = Inl e \<longleftrightarrow>
         e = KeyboardInterrupt \<and> neti (base_url m @ ''/v2/'') [] tmo = Interrupted"
    by (auto simp add: interruptible_probes(2) split: attempt.splits)
  have hub_r: "\<forall>req. neti (base_url m @ ''/v2/library/hello-world/manifests/latest'')
                manifest_headers tmo = Ran req \<longrightarrow>
         test_docker_hub_connectivity_or_interrupt neti m tmo
           = Inr (test_docker_hub_connectivity (\<lambda>u h t. req) m tmo)"
    by (simp add: interruptible_probes(3))
  have hub_i: "\<forall>e. test_docker_hub_connectivity_or_interrupt neti m tmo = Inl e \<longleftrightarrow>
         e = KeyboardInterrupt
         \<and> neti (base_url m @ ''/v2/library/hello-world/manifests/latest'')
              manifest_headers tmo = Interrupted"
    by (auto simp add: interruptible_probes(3) split: attempt.splits)
  show ?thesis
    using dns dns_t dns_f reg reg_t reg_f hub hub_t hub_f dns_p reg_p hub_p excl
      dns_r dns_i reg_r reg_i hub_r hub_i
    by (intro conjI) assumption+
qed

text \<open>The probes at concrete calls: an answer after a quarter of a second, a timeout, an
  \<open>NXDOMAIN\<close> answer, a 401 from a registry, a 500 from a manifest request, and a
  request that runs where the operator could have interrupted it.\<close>

theorem probe_result_shape_witness:
  "(1::real) \<le> 5 / 4
   \<and> fst (test_dns_resolution
        (\<lambda>s d t. \<lparr> t_start = 1, outcome = Completed 0 ''Address: 142.250.1.1'', t_end = 5 / 4 \<rparr>)
        ''8.8.8.8'' ''google.com'' 3) = (True, Fl (1 / 4))
   \<and> (0::real) \<le> 1 / 4
   \<and> fst (test_dns_resolution
        (\<lambda>s d t. \<lparr> t_start = 1, outcome = Raised TimeoutExpired, t_end = 4 \<rparr>)
        ''8.8.8.8'' ''google.com'' 3) = (False, PInf)
   \<and> fst (test_dns_resolution
        (\<lambda>s d t. \<lparr> t_start = 1, outcome = Completed 0 ''** server can't find x: NXDOMAIN'', t_end = 2 \<rparr>)
        ''8.8.8.8'' ''x'' 3) = (False, PInf)
   \<and> fst (test_registry_connectivity
        (\<lambda>u h t. \<lparr> q_start = 2, q_outcome = Response 401, q_end = 5 / 2 \<rparr>)
        ''registry.example/'' 10) = (True, Fl (1 / 2))
   \<and> fst (test_docker_hub_connectivity
        (\<lambda>u h t. \<lparr> q_start = 2, q_outcome = Response 500, q_end = 5 / 2 \<rparr>)
        ''registry.example/'' 15) = (False, PInf)
   \<and> test_registry_connectivity_or_interrupt
        (\<lambda>u h t. Ran \<lparr> q_start = 2, q_outcome = Response 401, q_end = 5 / 2 \<rparr>)
        ''registry.example/'' 10
      = Inr ((True, Fl (1 / 2)), [Http_get ''https://registry.example/v2/'' [] 10])
   \<and> test_dns_resolution_or_interrupt
        (\<lambda>s d t. Ran \<lparr> t_start = 1, outcome = Raised TimeoutExpired, t_end = 4 \<rparr>)
        ''8.8.8.8'' ''google.com'' 3
      = Inr ((False, PInf), [Nslookup ''google.com'' ''8.8.8.8'' 3])"
  using probe_result_shape
    [of "\<lambda>s d t. \<lparr> t_start = 1, outcome = Completed 0 ''Address: 142.250.1.1'', t_end = 5 / 4 \<rparr>"
        "''8.8.8.8''" "''google.com''" 3
        "\<lambda>u h t. \<lparr> q_start = 2, q_outcome = Response 401, q_end = 5 / 2 \<rparr>"
        "''registry.example/''"
        "\<lambda>s d t. Ran \<lparr> t_start = 1, outcome = Raised TimeoutExpired, t_end = 4 \<rparr>"
        "\<lambda>u h t. Ran \<lparr> q_start = 2, q_outcome = Response 401, q_end = 5 / 2 \<rparr>"]
  by (simp add: test_dns_resolution_def registry_probe_eq hub_probe_eq v2_request_def
      manifest_request_def startswith_def interruptible_probes base_url_def rstrip_slash_def)

text \<open>C3 as stated fails. When the wall clock is set back by a second while a lookup or
  a request is under way, the probe returns success with an elapsed time of minus one
  second; and an interrupt of the operator during a request leaves the registry probes
  as \<open>KeyboardInterrupt\<close>, which \<open>except Exception\<close> does not catch.\<close>

theorem probe_negative_elapsed_or_interrupt:
  "fst (test_dns_resolution
          (\<lambda>s d t. \<lparr> t_start = 1, outcome = Completed 0 ''Address: 142.250.1.1'', t_end = 0 \<rparr>)
          ''8.8.8.8'' ''google.com'' 3) = (True, Fl (- 1))
   \<and> fst (test_registry_connectivity
          (\<lambda>u h t. \<lparr> q_start = 1, q_outcome = Response 200, q_end = 0 \<rparr>)
          ''https://m.example'' 10) = (True, Fl (- 1))
   \<and> fst (test_docker_hub_connectivity
          (\<lambda>u h t. \<lparr> q_start = 1, q_outcome = Response 200, q_end = 0 \<rparr>)
          ''https://m.example'' 15) = (True, Fl (- 1))
   \<and> (- 1 :: real) < 0
   \<and> test_registry_connectivity_or_interrupt (\<lambda>u h t. Interrupted) ''https://m.example'' 10
        = Inl KeyboardInterrupt
   \<and> test_docker_hub_connectivity_or_interrupt (\<lambda>u h t. Interrupted) ''https://m.example'' 15
        = Inl KeyboardInterrupt"
  by (simp add: test_dns_resolution_def registry_probe_eq hub_probe_eq v2_request_def
      manifest_request_def startswith_def interruptible_probes)

subsection \<open>The DNS endpoint tester\<close>

lemma successes_Nil [simp]: "successes env p t [] = []"
  by (simp add: successes_def)

lemma length_successes:
  "length (successes env p t ds) = length (filter (\<lambda>d. fst (fst (test_dns_resolution env p d t))) ds)"
  by (simp add: successes_def filter_map comp_def)

lemma general_loop_eq:
  "general_loop env p ds (cnt, succ, evs) =
     (cnt + length (successes env p 3 ds), succ @ successes env p 3 ds, evs @ lookups p 3 ds)"
proof (induction ds arbitrary: cnt succ evs)
  case Nil
  show ?case by (simp add: lookups_def)
next
  case (Cons d ds)
  obtain b t ev where r: "test_dns_resolution env p d 3 = ((b, t), ev)"
    by (metis prod.exhaust)
  with snd_test_dns_resolution [of env p d 3] have ev: "ev = [Nslookup d p 3]"
    by simp
  show ?case
    by (cases b) (simp_all add: r ev Cons.IH successes_def lookups_def)
qed

lemma docker_loop_eq:
  "docker_loop env p t ds (cnt, details, succ, evs) =
     (cnt + length (successes env p t ds), details @ details_of env p t ds,
      succ @ successes env p t ds, evs @ lookups p t ds)"
proof (induction ds arbitrary: cnt details succ evs)
  case Nil
  show ?case by (simp add: lookups_def details_of_def)
next
  case (Cons d ds)
  obtain b rt ev where r: "test_dns_resolution env p d t = ((b, rt), ev)"
    by (metis prod.exhaust)
  with snd_test_dns_resolution [of env p d t] have ev: "ev = [Nslookup d p t]"
    by simp
  show ?case
    by (cases b) (simp_all add: r ev Cons.IH successes_def lookups_def details_of_def)
qed

lemma docker_closed:
  "test_docker_connectivity sel env p t =
    (Inr \<lparr> docker_success_count = length (successes env p t (docker_domains sel)),
           docker_total_time = (if successes env p t (docker_domains sel) = [] then Fl 0
              else fsum (successes env p t (docker_domains sel))),
           docker_avg_time = (if successes env p t (docker_domains sel) = [] then PInf
              else favg (successes env p t (docker_domains sel))),
           docker_success_rate = (if successes env p t (docker_domains sel) = [] then 0
              else rate (successes env p t (docker_domains sel)) (docker_domains sel)),
           docker_working = (successes env p t (docker_domains sel) \<noteq> [] \<and>
              rate (successes env p t (docker_domains sel)) (docker_domains sel) \<ge> 66),
           docker_details = details_of env p t (docker_domains sel) \<rparr>,
     lookups p t (docker_domains sel))"
proof (cases "docker_domains sel = []")
  case True
  then show ?thesis
    by (simp add: test_docker_connectivity_def lookups_def details_of_def)
next
  case False
  then show ?thesis
    by (simp add: test_docker_connectivity_def docker_loop_eq Let_def fdiv_def int_truediv_def
        favg_def rate_def)
qed

lemma dns_server_closed:
  "test_dns_server sel env n info =
    (case info_primary info of
       None \<Rightarrow> (Inl KeyError, [])
     | Some p \<Rightarrow>
        (Inr \<lparr> docker_success_count = length (successes env p 5 (docker_domains sel)),
           docker_total_time = (if successes env p 5 (docker_domains sel) = [] then Fl 0
              else fsum (successes env p 5 (docker_domains sel))),
           docker_avg_time = (if successes env p 5 (docker_domains sel) = [] then PInf
              else favg (successes env p 5 (docker_domains sel))),
           docker_success_rate = (if successes env p 5 (docker_domains sel) = [] then 0
              else rate (successes env p 5 (docker_domains sel)) (docker_domains sel)),
           docker_working = (successes env p 5 (docker_domains sel) \<noteq> [] \<and>
              rate (successes env p 5 (docker_domains sel)) (docker_domains sel) \<ge> 66),
           docker_details = details_of env p 5 (docker_domains sel),
           name = n, primary = p,
           secondary = (case info_secondary info of None \<Rightarrow> [] | Some s \<Rightarrow> s),
           success_count = length (successes env p 3 (test_domains sel)),
           total_time = (if successes env p 3 (test_domains sel) = [] then Fl 0
              else fsum (successes env p 3 (test_domains sel))),
           avg_time = (if successes env p 3 (test_domains sel) = [] then PInf
              else favg (successes env p 3 (test_domains sel))),
           success_rate = (if successes env p 3 (test_domains sel) = [] then 0
              else rate (successes env p 3 (test_domains sel)) (test_domains sel)),
           working = (successes env p 3 (test_domains sel) \<noteq> [] \<and>
              rate (successes env p 3 (test_domains sel)) (test_domains sel) \<ge> 50) \<rparr>,
         Print_testing n p # lookups p 3 (test_domains sel) @ lookups p 5 (docker_domains sel)))"
proof (cases "info_primary info")
  case None
  then show ?thesis by (simp add: test_dns_server_def)
next
  case (Some p)
  show ?thesis
  proof (cases "test_domains sel = []")
    case True
    then show ?thesis
      by (simp add: Some test_dns_server_def docker_closed lookups_def
          docker_results.extend_def dns_result.fields_def)
  next
    case False
    then show ?thesis
      by (simp add: Some test_dns_server_def general_loop_eq docker_closed Let_def fdiv_def
          int_truediv_def favg_def rate_def docker_results.extend_def dns_result.fields_def)
  qed
qed

text \<open>
  C7. Neither tester ever raises \<open>ZeroDivisionError\<close>, whatever the domain lists and the
  probes' results. The success count of a battery is the number of its probes that
  succeeded, and a battery with no success has the average \<open>inf\<close> and the success rate
  \<open>0\<close>: the general battery and the docker battery of \<open>_test_dns_server\<close>, and
  \<open>_test_docker_connectivity\<close> on its own.
\<close>

theorem zero_success_battery:
  "fst (test_dns_server sel env n info) \<noteq> Inl ZeroDivisionError
   \<and> fst (test_docker_connectivity sel env p t) \<noteq> Inl ZeroDivisionError
   \<and> (\<forall>r. fst (test_dns_server sel env n info) = Inr r \<longrightarrow>
         success_count r
           = length (filter (\<lambda>d. fst (fst (test_dns_resolution env (primary r) d 3)))
               (test_domains sel))
         \<and> docker_success_count r
           = length (filter (\<lambda>d. fst (fst (test_dns_resolution env (primary r) d 5)))
               (docker_domains sel))
         \<and> (success_count r = 0 \<longrightarrow> avg_time r = PInf \<and> success_rate r = 0)
         \<and> (docker_success_count r = 0 \<longrightarrow>
               docker_avg_time r = PInf \<and> docker_success_rate r = 0))
   \<and> (\<forall>r. fst (test_docker_connectivity sel env p t) = Inr r \<longrightarrow>
         docker_success_count r
           = length (filter (\<lambda>d. fst (fst (test_dns_resolution env p d t))) (docker_domains sel))
         \<and> (docker_success_count r = 0 \<longrightarrow>
               docker_avg_time r = PInf \<and> docker_success_rate r = 0))"
proof -
  have a: "fst (test_dns_server sel env n info) \<noteq> Inl ZeroDivisionError"
    by (simp add: dns_server_closed split: option.splits)
  have b: "fst (test_docker_connectivity sel env p t) \<noteq> Inl ZeroDivisionError"
    by (simp add: docker_closed)
  have c: "\<forall>r. fst (test_dns_server sel env n info) = Inr r \<longrightarrow>
         success_count r
           = length (filter (\<lambda>d. fst (fst (test_dns_resolution env (primary r) d 3)))
               (test_domains sel))
         \<and> docker_success_count r
           = length (filter (\<lambda>d. fst (fst (test_dns_resolution env (primary r) d 5)))
               (docker_domains sel))
         \<and> (success_count r = 0 \<longrightarrow> avg_time r = PInf \<and> success_rate r = 0)
         \<and> (docker_success_count r = 0 \<longrightarrow>
               docker_avg_time r = PInf \<and> docker_success_rate r = 0)"
    by (auto simp add: dns_server_closed length_successes [symmetric] split: option.splits)
  have d: "\<forall>r. fst (test_docker_connectivity sel env p t) = Inr r \<longrightarrow>
         docker_success_count r
           = length (filter (\<lambda>d. fst (fst (test_dns_resolution env p d t))) (docker_domains sel))
         \<and> (docker_success_count r = 0 \<longrightarrow>
               docker_avg_time r = PInf \<and> docker_success_rate r = 0)"
    by (auto simp add: docker_closed length_successes [symmetric])
  show ?thesis
    using a b c d by (intro conjI) assumption+
qed

text \<open>A server that answers no lookup before the timeout, with the domains of
  \<open>__init__\<close>: seven attempts, no success.\<close>

theorem zero_success_battery_witness:
  "fst (test_dns_server (init_selector [])
          (\<lambda>s d t. \<lparr> t_start = 0, outcome = Raised TimeoutExpired, t_end = real_of_int t \<rparr>)
          ''dead'' \<lparr> info_primary = Some ''10.0.0.1'', info_secondary = None \<rparr>)
     = Inr \<lparr> docker_success_count = 0, docker_total_time = Fl 0, docker_avg_time = PInf,
             docker_success_rate = 0, docker_working = False,
             docker_details =
               [\<lparr> d_domain = ''download.docker.com'', d_success = False, d_time = None \<rparr>,
                \<lparr> d_domain = ''registry-1.docker.io'', d_success = False, d_time = None \<rparr>,
                \<lparr> d_domain = ''auth.docker.io'', d_success = False, d_time = None \<rparr>],
             name = ''dead'', primary = ''10.0.0.1'', secondary = '''',
             success_count = 0, total_time = Fl 0, avg_time = PInf, success_rate = 0,
             working = False \<rparr>"
  using zero_success_battery
    [of "init_selector []"
        "\<lambda>s d t. \<lparr> t_start = 0, outcome = Raised TimeoutExpired, t_end = real_of_int t \<rparr>"
        "''dead''" "\<lparr> info_primary = Some ''10.0.0.1'', info_secondary = None \<rparr>"
        "''10.0.0.1''" 5]
  by (simp add: dns_server_closed init_selector_def successes_def details_of_def
      test_dns_resolution_def)

text \<open>
  C9. Every lookup \<open>_test_dns_server\<close> issues goes to the primary address: its log is
  the announcement, one lookup per general domain and one per docker domain, all at the
  primary. Replacing the secondary address of the endpoint changes nothing but the
  \<open>secondary\<close> field of the result, which is the configured secondary (or the empty
  string): same lookups, same counts, rates, averages and eligibility.
\<close>

theorem secondary_never_probed:
  "(\<forall>p. info_primary info = Some p \<longrightarrow>
       snd (test_dns_server sel env n info)
         = Print_testing n p # map (\<lambda>d. Nslookup d p 3) (test_domains sel)
             @ map (\<lambda>d. Nslookup d p 5) (docker_domains sel))
   \<and> (\<forall>d s t. Nslookup d s t \<in> set (snd (test_dns_server sel env n info)) \<longrightarrow>
         info_primary info = Some s)
   \<and> test_dns_server sel env n (info\<lparr> info_secondary := s2 \<rparr>)
       = (map_sum id (\<lambda>r. r\<lparr> secondary := (case s2 of None \<Rightarrow> [] | Some s \<Rightarrow> s) \<rparr>)
            (fst (test_dns_server sel env n info)),
          snd (test_dns_server sel env n info))
   \<and> (\<forall>r. fst (test_dns_server sel env n info) = Inr r \<longrightarrow>
         secondary r = (case info_secondary info of None \<Rightarrow> [] | Some s \<Rightarrow> s))"
proof -
  have a: "\<forall>p. info_primary info = Some p \<longrightarrow>
       snd (test_dns_server sel env n info)
         = Print_testing n p # map (\<lambda>d. Nslookup d p 3) (test_domains sel)
             @ map (\<lambda>d. Nslookup d p 5) (docker_domains sel)"
    by (simp add: dns_server_closed lookups_def)
  have b: "\<forall>d s t. Nslookup d s t \<in> set (snd (test_dns_server sel env n info)) \<longrightarrow>
         info_primary info = Some s"
    by (auto simp add: dns_server_closed lookups_def split: option.splits)
  have c: "test_dns_server sel env n (info\<lparr> info_secondary := s2 \<rparr>)
       = (map_sum id (\<lambda>r. r\<lparr> secondary := (case s2 of None \<Rightarrow> [] | Some s \<Rightarrow> s) \<rparr>)
            (fst (test_dns_server sel env n info)),
          snd (test_dns_server sel env n info))"
    by (simp add: dns_server_closed split: option.splits)
  have d: "\<forall>r. fst (test_dns_server sel env n info) = Inr r \<longrightarrow>
         secondary r = (case info_secondary info of None \<Rightarrow> [] | Some s \<Rightarrow> s)"
    by (auto simp add: dns_server_closed split: option.splits)
  show ?thesis
    using a b c d by (intro conjI) assumption+
qed

text \<open>An endpoint whose primary answers and whose secondary, like every other address,
  never does: nothing is sent to the secondary, and another secondary gives the same
  result but for that field.\<close>

theorem secondary_never_probed_witness:
  "info_primary \<lparr> info_primary = Some ''8.8.8.8'', info_secondary = Some ''192.0.2.1'' \<rparr>
     = Some ''8.8.8.8''
   \<and> snd (test_dns_server (init_selector [])
        (\<lambda>s d t. \<lparr> t_start = 0,
                    outcome = (if s = ''8.8.8.8'' then Completed 0 '''' else Raised TimeoutExpired),
                    t_end = 1 / 10 \<rparr>)
        ''google'' \<lparr> info_primary = Some ''8.8.8.8'', info_secondary = Some ''192.0.2.1'' \<rparr>)
     = [Print_testing ''google'' ''8.8.8.8'',
        Nslookup ''google.com'' ''8.8.8.8'' 3, Nslookup ''github.com'' ''8.8.8.8'' 3,
        Nslookup ''docker.com'' ''8.8.8.8'' 3, Nslookup ''ubuntu.com'' ''8.8.8.8'' 3,
        Nslookup ''download.docker.com'' ''8.8.8.8'' 5,
        Nslookup ''registry-1.docker.io'' ''8.8.8.8'' 5,
        Nslookup ''auth.docker.io'' ''8.8.8.8'' 5]
   \<and> test_dns_server (init_selector [])
        (\<lambda>s d t. \<lparr> t_start = 0,
                    outcome = (if s = ''8.8.8.8'' then Completed 0 '''' else Raised TimeoutExpired),
                    t_end = 1 / 10 \<rparr>)
        ''google'' \<lparr> info_primary = Some ''8.8.8.8'', info_secondary = Some ''8.8.4.4'' \<rparr>
     = (map_sum id (\<lambda>r. r\<lparr> secondary := ''8.8.4.4'' \<rparr>)
          (fst (test_dns_server (init_selector [])
             (\<lambda>s d t. \<lparr> t_start = 0,
                    outcome = (if s = ''8.8.8.8'' then Completed 0 '''' else Raised TimeoutExpired),
                    t_end = 1 / 10 \<rparr>)
             ''google'' \<lparr> info_primary = Some ''8.8.8.8'', info_secondary = Some ''192.0.2.1'' \<rparr>)),
        snd (test_dns_server (init_selector [])
             (\<lambda>s d t. \<lparr> t_start = 0,
                    outcome = (if s = ''8.8.8.8'' then Completed 0 '''' else Raised TimeoutExpired),
                    t_end = 1 / 10 \<rparr>)
             ''google'' \<lparr> info_primary = Some ''8.8.8.8'', info_secondary = Some ''192.0.2.1'' \<rparr>))"
  using secondary_never_probed
    [of "\<lparr> info_primary = Some ''8.8.8.8'', info_secondary = Some ''192.0.2.1'' \<rparr>"
        "init_selector []"
        "\<lambda>s d t. \<lparr> t_start = 0,
                    outcome = (if s = ''8.8.8.8'' then Completed 0 '''' else Raised TimeoutExpired),
                    t_end = 1 / 10 \<rparr>"
        "''google''" "Some ''8.8.4.4''"]
  by (simp add: init_selector_def)

subsection \<open>The registry endpoint tester\<close>

lemma single_registry_closed:
  "test_single_registry net reg =
     (case fst (test_registry_connectivity net (reg_mirror reg) 10) of
        (False, ct) \<Rightarrow>
          (\<lparr> mirror_name = reg_name reg, mirror = reg_mirror reg, insecure = reg_insecure reg,
              connectivity_success = False, connectivity_time = ct,
              hub_success = False, hub_time = PInf, total_score = PInf,
              status = ''Connection Failed'' \<rparr>,
           [Print_testing (reg_name reg) (reg_mirror reg),
            Http_get (base_url (reg_mirror reg) @ ''/v2/'') [] 10, Print_conn_failed])
      | (True, ct) \<Rightarrow>
          (case fst (test_docker_hub_connectivity net (reg_mirror reg) 15) of
             (False, ht) \<Rightarrow>
               (\<lparr> mirror_name = reg_name reg, mirror = reg_mirror reg,
                   insecure = reg_insecure reg,
                   connectivity_success = True, connectivity_time = ct,
                   hub_success = False, hub_time = ht, total_score = PInf,
                   status = ''Hub Access Failed'' \<rparr>,
                [Print_testing (reg_name reg) (reg_mirror reg),
                 Http_get (base_url (reg_mirror reg) @ ''/v2/'') [] 10, Print_conn_ok ct,
                 Http_get (base_url (reg_mirror reg) @ ''/v2/library/hello-world/manifests/latest'')
                   manifest_headers 15,
                 Print_hub_failed])
           | (True, ht) \<Rightarrow>
               (\<lparr> mirror_name = reg_name reg, mirror = reg_mirror reg,
                   insecure = reg_insecure reg,
                   connectivity_success = True, connectivity_time = ct,
                   hub_success = True, hub_time = ht,
                   total_score = fadd ct (fscale ht (3 / 2)),
                   status = ''Working'' \<rparr>,
                [Print_testing (reg_name reg) (reg_mirror reg),
                 Http_get (base_url (reg_mirror reg) @ ''/v2/'') [] 10, Print_conn_ok ct,
                 Http_get (base_url (reg_mirror reg) @ ''/v2/library/hello-world/manifests/latest'')
                   manifest_headers 15,
                 Print_hub_ok ht])))"
  by (simp add: test_single_registry_def registry_probe_eq hub_probe_eq Let_def
      split: http_outcome.splits)

lemma registry_probe_fst_cases:
  "fst (test_registry_connectivity net m tmo) = (False, PInf) \<or>
   (\<exists>t. fst (test_registry_connectivity net m tmo) = (True, Fl t))"
  by (simp add: registry_probe_eq split: http_outcome.splits)

lemma hub_probe_fst_cases:
  "fst (test_docker_hub_connectivity net m tmo) = (False, PInf) \<or>
   (\<exists>t. fst (test_docker_hub_connectivity net m tmo) = (True, Fl t))"
  by (simp add: hub_probe_eq split: http_outcome.splits)

text \<open>
  C10. In every record \<open>_test_single_registry\<close> returns, the total score is finite
  exactly when the status is \<open>'Working'\<close>, which is exactly when both the connectivity
  check and the hub check succeeded; otherwise the score is \<open>inf\<close>. When the connectivity
  check fails, the hub probe is not issued: the only request is the one to \<open>/v2/\<close>, and
  \<open>hub_success\<close> and \<open>hub_time\<close> keep \<open>False\<close> and \<open>inf\<close>.
\<close>

theorem single_registry_invariant:
  "(is_finite (total_score (fst (test_single_registry net reg)))
      \<longleftrightarrow> status (fst (test_single_registry net reg)) = ''Working'')
   \<and> (status (fst (test_single_registry net reg)) = ''Working''
      \<longleftrightarrow> connectivity_success (fst (test_single_registry net reg))
          \<and> hub_success (fst (test_single_registry net reg)))
   \<and> (status (fst (test_single_registry net reg)) \<noteq> ''Working''
      \<longrightarrow> total_score (fst (test_single_registry net reg)) = PInf)
   \<and> (\<not> connectivity_success (fst (test_single_registry net reg))
      \<longrightarrow> \<not> hub_success (fst (test_single_registry net reg))
          \<and> hub_time (fst (test_single_registry net reg)) = PInf
          \<and> status (fst (test_single_registry net reg)) = ''Connection Failed''
          \<and> snd (test_single_registry net reg)
              = [Print_testing (reg_name reg) (reg_mirror reg),
                 Http_get (base_url (reg_mirror reg) @ ''/v2/'') [] 10, Print_conn_failed])"
proof -
  consider
      (down) "fst (test_registry_connectivity net (reg_mirror reg) 10) = (False, PInf)"
    | (nohub) t where "fst (test_registry_connectivity net (reg_mirror reg) 10) = (True, Fl t)"
        "fst (test_docker_hub_connectivity net (reg_mirror reg) 15) = (False, PInf)"
    | (up) t h where "fst (test_registry_connectivity net (reg_mirror reg) 10) = (True, Fl t)"
        "fst (test_docker_hub_connectivity net (reg_mirror reg) 15) = (True, Fl h)"
    using registry_probe_fst_cases [of net "reg_mirror reg" 10]
      hub_probe_fst_cases [of net "reg_mirror reg" 15]
    by blast
  then show ?thesis
  proof cases
    case down
    then show ?thesis by (simp add: single_registry_closed)
  next
    case nohub
    then show ?thesis by (simp add: single_registry_closed)
  next
    case up
    then show ?thesis by (simp add: single_registry_closed)
  qed
qed

text \<open>A mirror that refuses the connection, one that answers \<open>/v2/\<close> but fails the
  manifest request with a 500, and one that answers both.\<close>

theorem single_registry_invariant_witness:
  "test_single_registry (\<lambda>u h t. \<lparr> q_start = 0, q_outcome = Request_failed ConnectionError, q_end = 1 \<rparr>)
       \<lparr> reg_name = ''Registry_1'', reg_mirror = ''https://mirror.example'', reg_insecure = False \<rparr>
     = (\<lparr> mirror_name = ''Registry_1'', mirror = ''https://mirror.example'', insecure = False,
          connectivity_success = False, connectivity_time = PInf,
          hub_success = False, hub_time = PInf, total_score = PInf,
          status = ''Connection Failed'' \<rparr>,
        [Print_testing ''Registry_1'' ''https://mirror.example'',
         Http_get ''https://mirror.example/v2/'' [] 10, Print_conn_failed])
   \<and> fst (test_single_registry
         (\<lambda>u h t. \<lparr> q_start = 0, q_outcome = (if h = [] then Response 200 else Response 500),
                     q_end = 1 / 10 \<rparr>)
         \<lparr> reg_name = ''Registry_2'', reg_mirror = ''https://mirror.example'', reg_insecure = False \<rparr>)
     = \<lparr> mirror_name = ''Registry_2'', mirror = ''https://mirror.example'', insecure = False,
          connectivity_success = True, connectivity_time = Fl (1 / 10),
          hub_success = False, hub_time = PInf, total_score = PInf,
          status = ''Hub Access Failed'' \<rparr>
   \<and> fst (test_single_registry
         (\<lambda>u h t. \<lparr> q_start = 0, q_outcome = Response 200, q_end = 1 / 10 \<rparr>)
         \<lparr> reg_name = ''Registry_3'', reg_mirror = ''https://mirror.example'', reg_insecure = False \<rparr>)
     = \<lparr> mirror_name = ''Registry_3'', mirror = ''https://mirror.example'', insecure = False,
          connectivity_success = True, connectivity_time = Fl (1 / 10),
          hub_success = True, hub_time = Fl (1 / 10), total_score = Fl (1 / 4),
          status = ''Working'' \<rparr>"
  using single_registry_invariant
    [of "\<lambda>u h t. \<lparr> q_start = 0, q_outcome = Request_failed ConnectionError, q_end = 1 \<rparr>"
        "\<lparr> reg_name = ''Registry_1'', reg_mirror = ''https://mirror.example'', reg_insecure = False \<rparr>"]
  by (simp add: single_registry_closed registry_probe_eq hub_probe_eq v2_request_def
      manifest_request_def base_url_def startswith_def rstrip_slash_def manifest_headers_def)

subsection \<open>The scheduler\<close>

lemma collect_results_eq:
  "\<forall>f \<in> set futs. \<forall>e. snd f = Inl e \<longrightarrow> is_Exception e \<Longrightarrow>
   collect_results futs (results, evs) = (Inr (results @ returned futs), evs @ map report futs)"
proof (induction futs arbitrary: results evs)
  case Nil
  show ?case by (simp add: returned_def)
next
  case (Cons f futs)
  obtain n x where f: "f = (n, x)" by (cases f)
  show ?case
  proof (cases x)
    case (Inl e)
    with Cons.prems f have "is_Exception e" by simp
    with Cons f Inl show ?thesis by (simp add: returned_def report_def)
  next
    case (Inr r)
    with Cons f show ?thesis by (simp add: returned_def report_def)
  qed
qed

lemma tester_raises_KeyError:
  "fst (test_dns_server sel env n info) = Inl e \<Longrightarrow> e = KeyError \<and> info_primary info = None"
  by (simp add: dns_server_closed split: option.splits)

lemma tester_returns:
  "fst (test_dns_server sel env n info) = Inr r \<Longrightarrow> name r = n \<and> info_primary info = Some (primary r)"
  by (auto simp add: dns_server_closed split: option.splits)

lemma tester_total:
  "(\<exists>r. fst (test_dns_server sel env n info) = Inr r) \<longleftrightarrow> info_primary info \<noteq> None"
  by (auto simp add: dns_server_closed split: option.splits)

lemma submit_pair:
  "submit sel env (n, info) = (n, fst (test_dns_server sel env n info))"
  by (simp add: submit_def)

lemma test_all_closed:
  "0 < w \<Longrightarrow> test_all_dns_servers sel env w completion =
     (Inr (returned (map (\<lambda>i. submit sel env (dns_servers sel ! i)) completion)),
      map report (map (\<lambda>i. submit sel env (dns_servers sel ! i)) completion))"
proof -
  assume w: "0 < w"
  have exc: "\<forall>f \<in> set (map (\<lambda>i. submit sel env (dns_servers sel ! i)) completion).
      \<forall>e. snd f = Inl e \<longrightarrow> is_Exception e"
    by (auto simp add: submit_def split: prod.splits dest: tester_raises_KeyError)
  have eq: "(\<lambda>i. case dns_servers sel ! i of
                    (server_name, info) \<Rightarrow>
                      (server_name, fst (test_dns_server sel env server_name info)))
        = (\<lambda>i. submit sel env (dns_servers sel ! i))"
    by (rule ext) (simp add: submit_def)
  show ?thesis
    unfolding test_all_dns_servers_def eq
    using w collect_results_eq [OF exc, of "[]" "[]"] by simp
qed

lemma mset_completion:
  assumes "mset completion = mset [0..<length items]"
  shows "mset (map (\<lambda>i. f (items ! i)) completion) = mset (map f items)"
proof -
  have "mset (map (\<lambda>i. f (items ! i)) completion) = image_mset (\<lambda>i. f (items ! i)) (mset completion)"
    by simp
  also have "\<dots> = mset (map (\<lambda>i. f (items ! i)) [0..<length items])"
    using assms by simp
  also have "map (\<lambda>i. f (items ! i)) [0..<length items] = map f (map (\<lambda>i. items ! i) [0..<length items])"
    by simp
  also have "map (\<lambda>i. items ! i) [0..<length items] = items"
    by (rule map_nth)
  finally show ?thesis .
qed

lemma mset_returned:
  "mset futs = mset futs' \<Longrightarrow> mset (returned futs) = mset (returned futs')"
  by (simp add: returned_def)

lemma returned_Cons:
  "returned ((n, x) # futs) = (case x of Inl e \<Rightarrow> returned futs | Inr r \<Rightarrow> r # returned futs)"
  by (simp add: returned_def split: sum.splits)

lemma names_returned:
  "r \<in> set (returned (map (submit sel env) items)) \<Longrightarrow> name r \<in> fst ` set items"
proof (induction items)
  case Nil
  then show ?case by (simp add: returned_def)
next
  case (Cons item items)
  obtain n info where item: "item = (n, info)" by (cases item)
  show ?case
  proof (cases "fst (test_dns_server sel env n info)")
    case (Inl e)
    with Cons item show ?thesis by (simp add: submit_pair returned_Cons)
  next
    case (Inr r')
    with Cons item tester_returns [OF Inr] show ?thesis
      by (auto simp add: submit_pair returned_Cons)
  qed
qed

lemma entry_of:
  "distinct (map fst items) \<Longrightarrow> (n, info) \<in> set items \<Longrightarrow>
   filter (\<lambda>x. name x = n) (returned (map (submit sel env) items))
     = (case fst (test_dns_server sel env n info) of Inl e \<Rightarrow> [] | Inr r \<Rightarrow> [r])"
proof (induction items)
  case Nil
  then show ?case by simp
next
  case (Cons item items)
  obtain n' info' where item: "item = (n', info')" by (cases item)
  have notin: "n' \<notin> fst ` set items" using Cons.prems(1) item by simp
  have rest_empty: "filter (\<lambda>x. name x = n') (returned (map (submit sel env) items)) = []"
    using notin names_returned [of _ sel env items] by (auto simp add: filter_empty_conv)
  show ?case
  proof (cases "(n, info) = (n', info')")
    case True
    then show ?thesis
      using rest_empty item
      by (auto simp add: submit_pair returned_Cons split: sum.splits dest: tester_returns)
  next
    case False
    with Cons.prems item have mem: "(n, info) \<in> set items" by auto
    with notin have neq: "n \<noteq> n'" by force
    from Cons.prems(1) have "distinct (map fst items)" by simp
    from Cons.IH [OF this mem] neq item show ?thesis
      by (auto simp add: submit_pair returned_Cons split: sum.splits dest: tester_returns)
  qed
qed

text \<open>
  C2, as the code has it. Take the endpoints of the configuration (a dictionary: no name
  twice), a pool of at least one worker and any order of completion. The scheduler
  returns a list that holds, in some order, the records of the endpoints whose tester
  returned. For each endpoint: when its tester returns, the list holds exactly one
  entry under its name, the record the tester returned, whatever the other endpoints
  did; when its tester raises, which it does exactly when the endpoint has no
  \<open>'primary'\<close> key, the list holds no entry under its name and the failure is printed.
\<close>

theorem scheduler_entries:
  assumes perm: "mset completion = mset [0..<length (dns_servers sel)]"
    and dist: "distinct (map fst (dns_servers sel))"
    and w: "0 < w"
    and item: "(n, info) \<in> set (dns_servers sel)"
  shows "\<exists>results evs.
      test_all_dns_servers sel env w completion = (Inr results, evs)
      \<and> mset results = mset (returned (map (submit sel env) (dns_servers sel)))
      \<and> (case fst (test_dns_server sel env n info) of
            Inr r \<Rightarrow> filter (\<lambda>x. name x = n) results = [r]
          | Inl e \<Rightarrow> filter (\<lambda>x. name x = n) results = []
                     \<and> Print_test_failed n e \<in> set evs)
      \<and> (isl (fst (test_dns_server sel env n info)) \<longleftrightarrow> info_primary info = None)"
proof -
  let ?futs = "map (\<lambda>i. submit sel env (dns_servers sel ! i)) completion"
  let ?all = "map (submit sel env) (dns_servers sel)"
  have run: "test_all_dns_servers sel env w completion = (Inr (returned ?futs), map report ?futs)"
    using w by (rule test_all_closed)
  have futs: "mset ?futs = mset ?all"
    using perm by (rule mset_completion)
  then have res: "mset (returned ?futs) = mset (returned ?all)"
    by (rule mset_returned)
  have "mset (filter (\<lambda>x. name x = n) (returned ?futs))
        = mset (filter (\<lambda>x. name x = n) (returned ?all))"
    using res by simp
  then have entry: "mset (filter (\<lambda>x. name x = n) (returned ?futs))
        = mset (case fst (test_dns_server sel env n info) of Inl e \<Rightarrow> [] | Inr r \<Rightarrow> [r])"
    using entry_of [OF dist item, of sel env] by simp
  have failed: "Print_test_failed n e \<in> set (map report ?futs)"
    if "fst (test_dns_server sel env n info) = Inl e" for e
  proof -
    have "(n, Inl e) \<in> set ?all"
      using item that by (force simp add: submit_pair)
    then have "(n, Inl e) \<in> set ?futs"
      using futs by (metis set_mset_mset)
    then have "report (n, Inl e) \<in> set (map report ?futs)"
      by (metis image_eqI set_map)
    then show ?thesis by (simp add: report_def)
  qed
  have cases: "case fst (test_dns_server sel env n info) of
            Inr r \<Rightarrow> filter (\<lambda>x. name x = n) (returned ?futs) = [r]
          | Inl e \<Rightarrow> filter (\<lambda>x. name x = n) (returned ?futs) = []
                     \<and> Print_test_failed n e \<in> set (map report ?futs)"
  proof (cases "fst (test_dns_server sel env n info)")
    case (Inl e)
    with entry failed [OF Inl] show ?thesis by (simp del: mset_filter)
  next
    case (Inr r)
    with entry show ?thesis by (simp del: mset_filter)
  qed
  have raises: "isl (fst (test_dns_server sel env n info)) \<longleftrightarrow> info_primary info = None"
    by (simp add: dns_server_closed split: option.splits)
  show ?thesis
  proof (intro exI conjI)
    show "test_all_dns_servers sel env w completion = (Inr (returned ?futs), map report ?futs)"
      by (rule run)
    show "mset (returned ?futs) = mset (returned ?all)"
      by (rule res)
    show "case fst (test_dns_server sel env n info) of
            Inr r \<Rightarrow> filter (\<lambda>x. name x = n) (returned ?futs) = [r]
          | Inl e \<Rightarrow> filter (\<lambda>x. name x = n) (returned ?futs) = []
                     \<and> Print_test_failed n e \<in> set (map report ?futs)"
      by (rule cases)
    show "isl (fst (test_dns_server sel env n info)) \<longleftrightarrow> info_primary info = None"
      by (rule raises)
  qed
qed

text \<open>Two endpoints, the first without a primary address; the second completes first.\<close>

theorem scheduler_entries_witness:
  "mset [1, 0] = mset [0..<length (dns_servers (init_selector
      [(''bad'', \<lparr> info_primary = None, info_secondary = None \<rparr>),
       (''good'', \<lparr> info_primary = Some ''8.8.8.8'', info_secondary = None \<rparr>)]))]
   \<and> test_all_dns_servers (init_selector
        [(''bad'', \<lparr> info_primary = None, info_secondary = None \<rparr>),
         (''good'', \<lparr> info_primary = Some ''8.8.8.8'', info_secondary = None \<rparr>)])
        (\<lambda>s d t. \<lparr> t_start = 0, outcome = Completed 0 '''', t_end = 1 / 10 \<rparr>) 5 [1, 0]
     = (Inr [\<lparr> docker_success_count = 3, docker_total_time = Fl (3 / 10),
               docker_avg_time = Fl (1 / 10), docker_success_rate = 100, docker_working = True,
               docker_details =
                 [\<lparr> d_domain = ''download.docker.com'', d_success = True, d_time = Some (Fl (1 / 10)) \<rparr>,
                  \<lparr> d_domain = ''registry-1.docker.io'', d_success = True, d_time = Some (Fl (1 / 10)) \<rparr>,
                  \<lparr> d_domain = ''auth.docker.io'', d_success = True, d_time = Some (Fl (1 / 10)) \<rparr>],
               name = ''good'', primary = ''8.8.8.8'', secondary = '''',
               success_count = 4, total_time = Fl (2 / 5), avg_time = Fl (1 / 10),
               success_rate = 100, working = True \<rparr>],
        [Print_server_ok ''good'' (Fl (1 / 10)) 100, Print_test_failed ''bad'' KeyError])"
proof -
  let ?sel = "init_selector
      [(''bad'', \<lparr> info_primary = None, info_secondary = None \<rparr>),
       (''good'', \<lparr> info_primary = Some ''8.8.8.8'', info_secondary = None \<rparr>)]"
  have perm: "mset [1, 0] = mset [0..<length (dns_servers ?sel)]"
    by (simp add: init_selector_def upt_rec)
  have dist: "distinct (map fst (dns_servers ?sel))"
    by (simp add: init_selector_def)
  have item: "(''bad'', \<lparr> info_primary = None, info_secondary = None \<rparr>) \<in> set (dns_servers ?sel)"
    by (simp add: init_selector_def)
  have w: "(0::int) < 5" by simp
  show ?thesis
    using perm scheduler_entries [OF perm dist w item,
        of "\<lambda>s d t. \<lparr> t_start = 0, outcome = Completed 0 '''', t_end = 1 / 10 \<rparr>"]
    by (simp add: test_all_closed submit_pair returned_def report_def dns_server_closed
        init_selector_def successes_def details_of_def test_dns_resolution_def
        fsum_def favg_def rate_def)
qed

text \<open>C2 as stated fails: an endpoint without a \<open>'primary'\<close> key enters the scheduler, its
  tester raises \<open>KeyError\<close>, and the returned list has no entry for it.\<close>

theorem scheduler_drops_failed_endpoint:
  "test_all_dns_servers
     (init_selector [(''bad'', \<lparr> info_primary = None, info_secondary = None \<rparr>)])
     (\<lambda>s d t. \<lparr> t_start = 0, outcome = Completed 0 '''', t_end = 1 / 10 \<rparr>) 5 [0]
   = (Inr [], [Print_test_failed ''bad'' KeyError])"
  by (simp add: test_all_closed submit_pair returned_def report_def dns_server_closed
      init_selector_def)

subsection \<open>Ranking\<close>

lemma set_working_servers:
  "set (working_servers results) = {r \<in> set results. working r}"
  by (auto simp add: working_servers_def)

lemma set_working_results:
  "set (working_results results) = {r \<in> set results. status r = ''Working''}"
  by (auto simp add: working_results_def)

lemma tester_working_iff:
  "fst (test_dns_server sel env n info) = Inr r \<Longrightarrow> working r \<longleftrightarrow> 50 \<le> success_rate r"
  by (auto simp add: dns_server_closed split: option.splits if_splits)

lemma returned_submitted:
  "r \<in> set (returned (map (\<lambda>i. submit sel env (items ! i)) completion)) \<Longrightarrow>
   \<exists>n info. fst (test_dns_server sel env n info) = Inr r"
proof -
  assume "r \<in> set (returned (map (\<lambda>i. submit sel env (items ! i)) completion))"
  then obtain i where i: "\<not> isl (snd (submit sel env (items ! i)))"
      "r = projr (snd (submit sel env (items ! i)))"
    by (auto simp add: returned_def)
  obtain n info where item: "items ! i = (n, info)" by (cases "items ! i")
  with i have "fst (test_dns_server sel env n info) = Inr r"
    by (cases "fst (test_dns_server sel env n info)") (simp_all add: submit_pair)
  then show ?thesis by blast
qed

lemma scheduled_results:
  "test_all_dns_servers sel env w completion = (Inr results, evs) \<Longrightarrow> r \<in> set results \<Longrightarrow>
   \<exists>n info. fst (test_dns_server sel env n info) = Inr r"
proof -
  assume run: "test_all_dns_servers sel env w completion = (Inr results, evs)"
    and r: "r \<in> set results"
  have w: "0 < w"
  proof (rule ccontr)
    assume "\<not> 0 < w"
    with run show False by (simp add: test_all_dns_servers_def)
  qed
  from run test_all_closed [OF w, of sel env completion]
  have "results = returned (map (\<lambda>i. submit sel env (dns_servers sel ! i)) completion)"
    by simp
  with r show ?thesis by (auto dest: returned_submitted)
qed

lemma dns_choose_selected:
  "dns_choose ws stdin evs = (Inr (Some (p, s)), evs') \<Longrightarrow>
   \<exists>r \<in> set ws. primary r = p \<and> secondary r = s"
proof (induction ws stdin evs rule: dns_choose.induct)
  case (1 ws evs)
  then show ?case by simp
next
  case (2 ws rest evs)
  then show ?case by simp
next
  case (3 ws l rest evs)
  show ?case
  proof (cases "lower (strip l) = ''q''")
    case True
    with "3.prems" show ?thesis by (simp add: Let_def)
  next
    case notq: False
    show ?thesis
    proof (cases "py_int (lower (strip l))")
      case (Inl e)
      with notq "3.prems" "3.IH"(1) show ?thesis
        by (simp add: Let_def split: if_splits)
    next
      case (Inr k)
      show ?thesis
      proof (cases "1 \<le> k \<and> k \<le> int (length ws)")
        case True
        then have "nat (k - 1) < length ws" by arith
        then have "ws ! nat (k - 1) \<in> set ws" by (rule nth_mem)
        with notq Inr True "3.prems" show ?thesis
          by (auto simp add: Let_def)
      next
        case False
        with notq Inr "3.prems" "3.IH"(2) show ?thesis
          by (simp add: Let_def)
      qed
    qed
  qed
qed

lemma registry_choose_selected:
  "registry_choose ws stdin evs = (Inr (Some r), evs') \<Longrightarrow> r \<in> set ws"
proof (induction ws stdin evs rule: registry_choose.induct)
  case (1 ws evs)
  then show ?case by simp
next
  case (2 ws rest evs)
  then show ?case by simp
next
  case (3 ws l rest evs)
  show ?case
  proof (cases "lower (strip l) = ''q'' \<or> lower (strip l) = ''0''")
    case True
    with "3.prems" show ?thesis by (auto simp add: Let_def)
  next
    case notq: False
    show ?thesis
    proof (cases "py_int (lower (strip l))")
      case (Inl e)
      with notq "3.prems" "3.IH"(1) show ?thesis
        by (simp add: Let_def split: if_splits)
    next
      case (Inr k)
      show ?thesis
      proof (cases "1 \<le> k \<and> k \<le> int (length ws)")
        case True
        then have "nat (k - 1) < length ws" by arith
        then have mem: "ws ! nat (k - 1) \<in> set ws" by (rule nth_mem)
        show ?thesis
        proof (cases rest)
          case Nil
          with notq Inr True "3.prems" show ?thesis by (simp add: Let_def)
        next
          case (Cons ev rest')
          show ?thesis
          proof (cases ev)
            case Interrupt
            with Cons notq Inr True "3.prems" show ?thesis by (simp add: Let_def)
          next
            case (Line c)
            show ?thesis
            proof (cases "lower (strip c) \<in> set [''y'', ''yes'']")
              case yes: True
              with Line Cons notq Inr True "3.prems" mem show ?thesis
                by (simp add: Let_def)
            next
              case no: False
              with Line Cons notq Inr True "3.prems" "3.IH"(2) show ?thesis
                by (simp add: Let_def)
            qed
          qed
        qed
      next
        case False
        with notq Inr "3.prems" "3.IH"(3) show ?thesis
          by (simp add: Let_def)
      qed
    qed
  qed
qed

text \<open>
  C6. The ranked list of the DNS selector holds exactly the results with \<open>working\<close> set,
  and a result without it appears nowhere in the list. In a record the tester returns,
  \<open>working\<close> is set exactly when the general success rate is at least 50, so every
  entry ranked from the scheduler's results meets that threshold, and so does the
  server the operator ends up selecting. The ranked list of the registry selector holds
  exactly the results with the status \<open>'Working'\<close>, and a selected mirror is one of them.
\<close>

theorem ranked_only_eligible:
  "set (working_servers results) = {r \<in> set results. working r}
   \<and> (\<forall>r \<in> set results. \<not> working r \<longrightarrow> r \<notin> set (working_servers results))
   \<and> (\<forall>r. fst (test_dns_server sel env n info) = Inr r \<longrightarrow>
         (working r \<longleftrightarrow> 50 \<le> success_rate r))
   \<and> (\<forall>rs evs. test_all_dns_servers sel env w completion = (Inr rs, evs) \<longrightarrow>
         (\<forall>r \<in> set (working_servers rs). r \<in> set rs \<and> working r \<and> 50 \<le> success_rate r)
         \<and> (\<forall>r \<in> set rs. success_rate r < 50 \<longrightarrow> r \<notin> set (working_servers rs)))
   \<and> (\<forall>p s evs. select_dns_interactive sel env completion stdin = (Inr (Some (p, s)), evs) \<longrightarrow>
         (\<exists>rs evs0. test_all_dns_servers sel env 5 completion = (Inr rs, evs0)
            \<and> (\<exists>r \<in> set rs. working r \<and> 50 \<le> success_rate r
                  \<and> primary r = p \<and> secondary r = s)))
   \<and> set (working_results regs) = {r \<in> set regs. status r = ''Working''}
   \<and> (\<forall>r \<in> set regs. status r \<noteq> ''Working'' \<longrightarrow> r \<notin> set (working_results regs))
   \<and> (\<forall>r evs. display_results_and_choose regs stdin = (Inr (Some r), evs) \<longrightarrow>
         r \<in> set regs \<and> status r = ''Working'')"
proof -
  have a: "set (working_servers results) = {r \<in> set results. working r}"
    by (rule set_working_servers)
  have b: "\<forall>r \<in> set results. \<not> working r \<longrightarrow> r \<notin> set (working_servers results)"
    by (simp add: set_working_servers)
  have c: "\<forall>r. fst (test_dns_server sel env n info) = Inr r \<longrightarrow>
         (working r \<longleftrightarrow> 50 \<le> success_rate r)"
    by (simp add: tester_working_iff)
  have rate: "working r \<longleftrightarrow> 50 \<le> success_rate r"
    if "test_all_dns_servers sel env w' completion = (Inr rs, evs)" "r \<in> set rs"
    for rs evs r w'
    using scheduled_results [OF that] tester_working_iff by blast
  have d: "\<forall>rs evs. test_all_dns_servers sel env w completion = (Inr rs, evs) \<longrightarrow>
         (\<forall>r \<in> set (working_servers rs). r \<in> set rs \<and> working r \<and> 50 \<le> success_rate r)
         \<and> (\<forall>r \<in> set rs. success_rate r < 50 \<longrightarrow> r \<notin> set (working_servers rs))"
    using rate by (fastforce simp add: set_working_servers)
  have e: "\<forall>p s evs. select_dns_interactive sel env completion stdin = (Inr (Some (p, s)), evs) \<longrightarrow>
         (\<exists>rs evs0. test_all_dns_servers sel env 5 completion = (Inr rs, evs0)
            \<and> (\<exists>r \<in> set rs. working r \<and> 50 \<le> success_rate r
                  \<and> primary r = p \<and> secondary r = s))"
  proof (intro allI impI)
    fix p s evs
    assume sel: "select_dns_interactive sel env completion stdin = (Inr (Some (p, s)), evs)"
    obtain x evs0 where run: "test_all_dns_servers sel env 5 completion = (x, evs0)"
      by (cases "test_all_dns_servers sel env 5 completion")
    show "\<exists>rs evs0. test_all_dns_servers sel env 5 completion = (Inr rs, evs0)
            \<and> (\<exists>r \<in> set rs. working r \<and> 50 \<le> success_rate r
                  \<and> primary r = p \<and> secondary r = s)"
    proof (cases x)
      case (Inl ex)
      with sel run show ?thesis by (simp add: select_dns_interactive_def)
    next
      case (Inr rs)
      with sel run obtain evs1 where
        "dns_choose (working_servers rs) stdin evs1 = (Inr (Some (p, s)), evs)"
        by (auto simp add: select_dns_interactive_def split: if_splits)
      from dns_choose_selected [OF this] obtain r where
        r: "r \<in> set (working_servers rs)" "primary r = p" "secondary r = s"
        by blast
      then have "r \<in> set rs" "working r"
        by (simp_all add: set_working_servers)
      with rate [of 5 rs evs0 r] run Inr have "50 \<le> success_rate r" by simp
      with r \<open>r \<in> set rs\<close> \<open>working r\<close> run Inr show ?thesis by blast
    qed
  qed
  have f: "set (working_results regs) = {r \<in> set regs. status r = ''Working''}"
    by (rule set_working_results)
  have g: "\<forall>r \<in> set regs. status r \<noteq> ''Working'' \<longrightarrow> r \<notin> set (working_results regs)"
    by (simp add: set_working_results)
  have h: "\<forall>r evs. display_results_and_choose regs stdin = (Inr (Some r), evs) \<longrightarrow>
         r \<in> set regs \<and> status r = ''Working''"
    using registry_choose_selected [of "working_results regs" stdin]
    by (auto simp add: display_results_and_choose_def set_working_results split: if_splits)
  show ?thesis
    using a b c d e f g h by (intro conjI) assumption+
qed

text \<open>A server that answers one general lookup in four stays out of the ranked list; the
  operator's choice \<open>1\<close> is the server that answers them all. A mirror whose hub check
  failed stays out of the registry ranking.\<close>

theorem ranked_only_eligible_witness:
  "map (\<lambda>r. (name r, success_rate r, working r))
     (projr (fst (test_all_dns_servers
        (init_selector
           [(''slow'', \<lparr> info_primary = Some ''10.0.0.1'', info_secondary = None \<rparr>),
            (''good'', \<lparr> info_primary = Some ''8.8.8.8'', info_secondary = Some ''8.8.4.4'' \<rparr>)])
        (\<lambda>s d t. \<lparr> t_start = 0,
                    outcome = (if s = ''8.8.8.8'' \<or> d = ''google.com'' then Completed 0 ''''
                               else Raised TimeoutExpired),
                    t_end = 1 / 10 \<rparr>) 5 [0, 1])))
     = [(''slow'', 25, False), (''good'', 100, True)]
   \<and> map name (working_servers (projr (fst (test_all_dns_servers
        (init_selector
           [(''slow'', \<lparr> info_primary = Some ''10.0.0.1'', info_secondary = None \<rparr>),
            (''good'', \<lparr> info_primary = Some ''8.8.8.8'', info_secondary = Some ''8.8.4.4'' \<rparr>)])
        (\<lambda>s d t. \<lparr> t_start = 0,
                    outcome = (if s = ''8.8.8.8'' \<or> d = ''google.com'' then Completed 0 ''''
                               else Raised TimeoutExpired),
                    t_end = 1 / 10 \<rparr>) 5 [0, 1]))))
     = [''good'']
   \<and> fst (select_dns_interactive
        (init_selector
           [(''slow'', \<lparr> info_primary = Some ''10.0.0.1'', info_secondary = None \<rparr>),
            (''good'', \<lparr> info_primary = Some ''8.8.8.8'', info_secondary = Some ''8.8.4.4'' \<rparr>)])
        (\<lambda>s d t. \<lparr> t_start = 0,
                    outcome = (if s = ''8.8.8.8'' \<or> d = ''google.com'' then Completed 0 ''''
                               else Raised TimeoutExpired),
                    t_end = 1 / 10 \<rparr>) [0, 1] [Line ''1''])
     = Inr (Some (''8.8.8.8'', ''8.8.4.4''))
   \<and> map mirror_name (working_results
        [\<lparr> mirror_name = ''Registry_1'', mirror = ''https://a.example'', insecure = False,
            connectivity_success = True, connectivity_time = Fl (1 / 10),
            hub_success = False, hub_time = PInf, total_score = PInf,
            status = ''Hub Access Failed'' \<rparr>,
         \<lparr> mirror_name = ''Registry_2'', mirror = ''https://b.example'', insecure = False,
            connectivity_success = True, connectivity_time = Fl (1 / 5),
            hub_success = True, hub_time = Fl (2 / 5), total_score = Fl (4 / 5),
            status = ''Working'' \<rparr>])
     = [''Registry_2'']"
  using ranked_only_eligible
    [of "[]" "init_selector
           [(''slow'', \<lparr> info_primary = Some ''10.0.0.1'', info_secondary = None \<rparr>),
            (''good'', \<lparr> info_primary = Some ''8.8.8.8'', info_secondary = Some ''8.8.4.4'' \<rparr>)]"
        "\<lambda>s d t. \<lparr> t_start = 0,
                    outcome = (if s = ''8.8.8.8'' \<or> d = ''google.com'' then Completed 0 ''''
                               else Raised TimeoutExpired),
                    t_end = 1 / 10 \<rparr>"
        "''slow''" "\<lparr> info_primary = Some ''10.0.0.1'', info_secondary = None \<rparr>"
        5 "[0, 1]" "[Line ''1'']"
        "[\<lparr> mirror_name = ''Registry_1'', mirror = ''https://a.example'', insecure = False,
            connectivity_success = True, connectivity_time = Fl (1 / 10),
            hub_success = False, hub_time = PInf, total_score = PInf,
            status = ''Hub Access Failed'' \<rparr>,
         \<lparr> mirror_name = ''Registry_2'', mirror = ''https://b.example'', insecure = False,
            connectivity_success = True, connectivity_time = Fl (1 / 5),
            hub_success = True, hub_time = Fl (2 / 5), total_score = Fl (4 / 5),
            status = ''Working'' \<rparr>]"]
  by (simp add: select_dns_interactive_def test_all_closed submit_pair returned_def
      dns_server_closed init_selector_def successes_def test_dns_resolution_def rate_def
      working_servers_def working_results_def docker_working_servers_def
      lower_def strip_def is_space_def lower_char_def py_int_def unsigned_def digit_of_def)

subsection \<open>The order of the DNS ranking\<close>

lemma sorted_working_servers:
  "sorted (map dns_sort_key (working_servers results))"
  by (simp add: working_servers_def)

lemma mset_working_servers:
  "mset (working_servers results) = filter_mset working (mset results)"
  by (simp add: working_servers_def)

lemma key_le_iff:
  "dns_sort_key a \<le> dns_sort_key b \<longleftrightarrow>
     (docker_working a \<and> \<not> docker_working b)
     \<or> (docker_working a = docker_working b
         \<and> (docker_avg_time a < docker_avg_time b
             \<or> (docker_avg_time a = docker_avg_time b \<and> avg_time a \<le> avg_time b)))"
  by (auto simp add: dns_sort_key_def less_eq_prod_def)

lemma ranked_pair:
  assumes "i < j" "j < length (working_servers results)"
  shows "dns_sort_key (working_servers results ! i) \<le> dns_sort_key (working_servers results ! j)"
proof -
  have "sorted (map dns_sort_key (working_servers results))"
    by (rule sorted_working_servers)
  from sorted_nth_mono [OF this, of i j] assms show ?thesis by simp
qed

lemma rank_two:
  assumes "mset (filter working xs) = {#a, c#}" "dns_sort_key a < dns_sort_key c"
  shows "working_servers xs = [a, c]"
proof -
  have m: "mset (filter working xs) = mset [a, c]" using assms(1) by simp
  have "a \<noteq> c" using assms(2) by auto
  have inj: "inj_on dns_sort_key (set (filter working xs))"
  proof -
    have "set (filter working xs) = {a, c}"
      using m by (metis list.simps(15) empty_set mset_eq_setD)
    with assms(2) show ?thesis by (auto simp add: inj_on_def)
  qed
  have "sorted (map dns_sort_key [a, c])" using assms(2) by simp
  from sort_key_inj_key_eq [OF m inj this] show ?thesis
    by (simp add: working_servers_def)
qed

text \<open>
  C4. The ranked list of the DNS selector is the working results in ascending order of
  the key \<open>(not docker_working, docker_avg_time, avg_time)\<close>: of two entries, the earlier
  one is docker-eligible if the later one is; when both or neither are, the earlier has
  the smaller or equal docker average; and when the docker averages are equal too, the
  smaller or equal general average. For three results \<open>a\<close> (rate 100, average 0.1 s,
  docker-eligible), \<open>b\<close> (rate 40) and \<open>c\<close> (rate 60, average 0.3 s, not
  docker-eligible), with \<open>working\<close> set by the tester's rule, the ranked list is
  \<open>[a, c]\<close> in whatever order the three arrive.
\<close>

theorem dns_ranking_order:
  "sorted (map dns_sort_key (working_servers results))
   \<and> mset (working_servers results) = filter_mset working (mset results)
   \<and> (\<forall>i j. i < j \<and> j < length (working_servers results) \<longrightarrow>
         (docker_working (working_servers results ! j)
            \<longrightarrow> docker_working (working_servers results ! i))
         \<and> (docker_working (working_servers results ! i)
              = docker_working (working_servers results ! j)
            \<longrightarrow> docker_avg_time (working_servers results ! i)
                  \<le> docker_avg_time (working_servers results ! j))
         \<and> (docker_working (working_servers results ! i)
              = docker_working (working_servers results ! j)
            \<and> docker_avg_time (working_servers results ! i)
              = docker_avg_time (working_servers results ! j)
            \<longrightarrow> avg_time (working_servers results ! i)
                  \<le> avg_time (working_servers results ! j)))
   \<and> (success_rate a = 100 \<and> avg_time a = Fl (1 / 10) \<and> docker_working a
       \<and> success_rate b = 40
       \<and> success_rate c = 60 \<and> avg_time c = Fl (3 / 10) \<and> \<not> docker_working c
       \<and> (\<forall>x \<in> {a, b, c}. working x \<longleftrightarrow> 50 \<le> success_rate x)
       \<and> mset arrived = {#a, b, c#}
       \<longrightarrow> working_servers arrived = [a, c])"
proof -
  have s: "sorted (map dns_sort_key (working_servers results))"
    by (rule sorted_working_servers)
  have m: "mset (working_servers results) = filter_mset working (mset results)"
    by (rule mset_working_servers)
  have p: "\<forall>i j. i < j \<and> j < length (working_servers results) \<longrightarrow>
         (docker_working (working_servers results ! j)
            \<longrightarrow> docker_working (working_servers results ! i))
         \<and> (docker_working (working_servers results ! i)
              = docker_working (working_servers results ! j)
            \<longrightarrow> docker_avg_time (working_servers results ! i)
                  \<le> docker_avg_time (working_servers results ! j))
         \<and> (docker_working (working_servers results ! i)
              = docker_working (working_servers results ! j)
            \<and> docker_avg_time (working_servers results ! i)
              = docker_avg_time (working_servers results ! j)
            \<longrightarrow> avg_time (working_servers results ! i)
                  \<le> avg_time (working_servers results ! j))"
  proof (intro allI impI)
    fix i j
    assume "i < j \<and> j < length (working_servers results)"
    then have "dns_sort_key (working_servers results ! i)
        \<le> dns_sort_key (working_servers results ! j)"
      by (simp add: ranked_pair)
    then show "(docker_working (working_servers results ! j)
            \<longrightarrow> docker_working (working_servers results ! i))
         \<and> (docker_working (working_servers results ! i)
              = docker_working (working_servers results ! j)
            \<longrightarrow> docker_avg_time (working_servers results ! i)
                  \<le> docker_avg_time (working_servers results ! j))
         \<and> (docker_working (working_servers results ! i)
              = docker_working (working_servers results ! j)
            \<and> docker_avg_time (working_servers results ! i)
              = docker_avg_time (working_servers results ! j)
            \<longrightarrow> avg_time (working_servers results ! i)
                  \<le> avg_time (working_servers results ! j))"
      unfolding key_le_iff by auto
  qed
  have q: "success_rate a = 100 \<and> avg_time a = Fl (1 / 10) \<and> docker_working a
       \<and> success_rate b = 40
       \<and> success_rate c = 60 \<and> avg_time c = Fl (3 / 10) \<and> \<not> docker_working c
       \<and> (\<forall>x \<in> {a, b, c}. working x \<longleftrightarrow> 50 \<le> success_rate x)
       \<and> mset arrived = {#a, b, c#}
       \<longrightarrow> working_servers arrived = [a, c]"
  proof
    assume h: "success_rate a = 100 \<and> avg_time a = Fl (1 / 10) \<and> docker_working a
       \<and> success_rate b = 40
       \<and> success_rate c = 60 \<and> avg_time c = Fl (3 / 10) \<and> \<not> docker_working c
       \<and> (\<forall>x \<in> {a, b, c}. working x \<longleftrightarrow> 50 \<le> success_rate x)
       \<and> mset arrived = {#a, b, c#}"
    then have w: "working a" "\<not> working b" "working c" by simp_all
    from h have "mset (filter working arrived) = filter_mset working {#a, b, c#}"
      by simp
    with w have f: "mset (filter working arrived) = {#a, c#}" by simp
    from h have "dns_sort_key a < dns_sort_key c"
      by (simp add: dns_sort_key_def less_prod_def)
    with f show "working_servers arrived = [a, c]" by (rule rank_two)
  qed
  show ?thesis
    using s m p q by (intro conjI) assumption+
qed

text \<open>The scenario from the network up, with a fifth general domain so that rates of 40
  and 60 arise: server A answers every lookup in 0.1 s, B two general lookups of five, C
  three general lookups of five in 0.3 s and no docker lookup. B completes first, then
  C, then A.\<close>

theorem dns_ranking_order_witness:
  "map (\<lambda>r. (name r, success_rate r, avg_time r, working r, docker_working r))
     (projr (fst (test_all_dns_servers
        \<lparr> dns_servers =
            [(''A'', \<lparr> info_primary = Some ''1.1.1.1'', info_secondary = None \<rparr>),
             (''B'', \<lparr> info_primary = Some ''2.2.2.2'', info_secondary = None \<rparr>),
             (''C'', \<lparr> info_primary = Some ''3.3.3.3'', info_secondary = None \<rparr>)],
          test_domains = [''google.com'', ''github.com'', ''docker.com'', ''ubuntu.com'', ''pypi.org''],
          docker_domains = [''download.docker.com'', ''registry-1.docker.io'', ''auth.docker.io''] \<rparr>
        (\<lambda>s d t. if s = ''1.1.1.1''
                  then \<lparr> t_start = 0, outcome = Completed 0 '''', t_end = 1 / 10 \<rparr>
                  else if s = ''2.2.2.2''
                  then \<lparr> t_start = 0,
                         outcome = (if d = ''google.com'' \<or> d = ''github.com'' then Completed 0 ''''
                                    else Raised TimeoutExpired),
                         t_end = 1 / 5 \<rparr>
                  else \<lparr> t_start = 0,
                         outcome = (if d = ''google.com'' \<or> d = ''github.com'' \<or> d = ''docker.com''
                                    then Completed 0 '''' else Raised TimeoutExpired),
                         t_end = 3 / 10 \<rparr>)
        5 [1, 2, 0])))
     = [(''B'', 40, Fl (1 / 5), False, False),
        (''C'', 60, Fl (3 / 10), True, False),
        (''A'', 100, Fl (1 / 10), True, True)]
   \<and> map name (working_servers (projr (fst (test_all_dns_servers
        \<lparr> dns_servers =
            [(''A'', \<lparr> info_primary = Some ''1.1.1.1'', info_secondary = None \<rparr>),
             (''B'', \<lparr> info_primary = Some ''2.2.2.2'', info_secondary = None \<rparr>),
             (''C'', \<lparr> info_primary = Some ''3.3.3.3'', info_secondary = None \<rparr>)],
          test_domains = [''google.com'', ''github.com'', ''docker.com'', ''ubuntu.com'', ''pypi.org''],
          docker_domains = [''download.docker.com'', ''registry-1.docker.io'', ''auth.docker.io''] \<rparr>
        (\<lambda>s d t. if s = ''1.1.1.1''
                  then \<lparr> t_start = 0, outcome = Completed 0 '''', t_end = 1 / 10 \<rparr>
                  else if s = ''2.2.2.2''
                  then \<lparr> t_start = 0,
                         outcome = (if d = ''google.com'' \<or> d = ''github.com'' then Completed 0 ''''
                                    else Raised TimeoutExpired),
                         t_end = 1 / 5 \<rparr>
                  else \<lparr> t_start = 0,
                         outcome = (if d = ''google.com'' \<or> d = ''github.com'' \<or> d = ''docker.com''
                                    then Completed 0 '''' else Raised TimeoutExpired),
                         t_end = 3 / 10 \<rparr>)
        5 [1, 2, 0]))))
     = [''A'', ''C'']"
proof -
  let ?sel = "\<lparr> dns_servers =
            [(''A'', \<lparr> info_primary = Some ''1.1.1.1'', info_secondary = None \<rparr>),
             (''B'', \<lparr> info_primary = Some ''2.2.2.2'', info_secondary = None \<rparr>),
             (''C'', \<lparr> info_primary = Some ''3.3.3.3'', info_secondary = None \<rparr>)],
          test_domains = [''google.com'', ''github.com'', ''docker.com'', ''ubuntu.com'', ''pypi.org''],
          docker_domains = [''download.docker.com'', ''registry-1.docker.io'', ''auth.docker.io''] \<rparr>"
  let ?env = "\<lambda>s d t. if s = ''1.1.1.1''
                  then \<lparr> t_start = 0, outcome = Completed 0 '''', t_end = 1 / 10 \<rparr>
                  else if s = ''2.2.2.2''
                  then \<lparr> t_start = 0,
                         outcome = (if d = ''google.com'' \<or> d = ''github.com'' then Completed 0 ''''
                                    else Raised TimeoutExpired),
                         t_end = 1 / 5 \<rparr>
                  else \<lparr> t_start = 0,
                         outcome = (if d = ''google.com'' \<or> d = ''github.com'' \<or> d = ''docker.com''
                                    then Completed 0 '''' else Raised TimeoutExpired),
                         t_end = 3 / 10 \<rparr>"
  let ?rs = "projr (fst (test_all_dns_servers ?sel ?env 5 [1, 2, 0]))"
  obtain a b c where abc: "?rs = [b, c, a]"
    by (simp add: test_all_closed submit_pair returned_def dns_server_closed)
  have stats: "map (\<lambda>r. (name r, success_rate r, avg_time r, working r, docker_working r)) ?rs
     = [(''B'', 40, Fl (1 / 5), False, False),
        (''C'', 60, Fl (3 / 10), True, False),
        (''A'', 100, Fl (1 / 10), True, True)]"
    by (simp add: test_all_closed submit_pair returned_def dns_server_closed successes_def
        test_dns_resolution_def rate_def favg_def fsum_def)
  with abc have hyp: "success_rate a = 100 \<and> avg_time a = Fl (1 / 10) \<and> docker_working a
       \<and> success_rate b = 40
       \<and> success_rate c = 60 \<and> avg_time c = Fl (3 / 10) \<and> \<not> docker_working c
       \<and> (\<forall>x \<in> {a, b, c}. working x \<longleftrightarrow> 50 \<le> success_rate x)
       \<and> mset ?rs = {#a, b, c#}"
    by simp
  with dns_ranking_order [of ?rs a b c ?rs] have "working_servers ?rs = [a, c]"
    by blast
  with abc stats have "map name (working_servers ?rs) = [''A'', ''C'']"
    by simp
  with stats show ?thesis by simp
qed

subsection \<open>Determinism of the ranking\<close>

lemma sort_key_arrival:
  fixes f :: "'a \<Rightarrow> 'k::linorder"
  assumes "mset xs = mset ys" "inj_on f (set xs)"
  shows "sort_key f xs = sort_key f ys"
proof -
  have m: "mset xs = mset (sort_key f ys)" using assms(1) by simp
  have s: "sorted (map f (sort_key f ys))" by simp
  from m assms(2) s show ?thesis by (rule sort_key_inj_key_eq)
qed

text \<open>
  C1, as the code has it. Both rankings are functions of the list of results alone. For
  two arrival orders of the same results they give the same list whenever no two
  different ranked entries have the same sort key; entries with the same key keep the
  order in which they arrived, since the sort is stable and the key is its only
  criterion.
\<close>

theorem ranking_deterministic:
  "(mset xs = mset ys \<and> inj_on dns_sort_key (set (filter working xs))
      \<longrightarrow> working_servers xs = working_servers ys)
   \<and> (\<forall>k. filter (\<lambda>r. dns_sort_key r = k) (working_servers xs)
          = filter (\<lambda>r. dns_sort_key r = k) (filter working xs))
   \<and> (mset rs = mset rs' \<and> inj_on total_score (set (filter (\<lambda>r. status r = ''Working'') rs))
      \<longrightarrow> working_results rs = working_results rs')
   \<and> (\<forall>k. filter (\<lambda>r. total_score r = k) (working_results rs)
          = filter (\<lambda>r. total_score r = k) (filter (\<lambda>r. status r = ''Working'') rs))"
proof -
  have a: "mset xs = mset ys \<and> inj_on dns_sort_key (set (filter working xs))
      \<longrightarrow> working_servers xs = working_servers ys"
  proof
    assume h: "mset xs = mset ys \<and> inj_on dns_sort_key (set (filter working xs))"
    then have "mset (filter working xs) = mset (filter working ys)" by simp
    with h show "working_servers xs = working_servers ys"
      unfolding working_servers_def by (intro sort_key_arrival) simp_all
  qed
  have b: "\<forall>k. filter (\<lambda>r. dns_sort_key r = k) (working_servers xs)
          = filter (\<lambda>r. dns_sort_key r = k) (filter working xs)"
    by (simp add: working_servers_def sort_key_stable)
  have c: "mset rs = mset rs' \<and> inj_on total_score (set (filter (\<lambda>r. status r = ''Working'') rs))
      \<longrightarrow> working_results rs = working_results rs'"
  proof
    assume h: "mset rs = mset rs'
      \<and> inj_on total_score (set (filter (\<lambda>r. status r = ''Working'') rs))"
    then have "mset (filter (\<lambda>r. status r = ''Working'') rs)
        = mset (filter (\<lambda>r. status r = ''Working'') rs')" by simp
    with h show "working_results rs = working_results rs'"
      unfolding working_results_def by (intro sort_key_arrival) simp_all
  qed
  have d: "\<forall>k. filter (\<lambda>r. total_score r = k) (working_results rs)
          = filter (\<lambda>r. total_score r = k) (filter (\<lambda>r. status r = ''Working'') rs)"
    by (simp add: working_results_def sort_key_stable)
  show ?thesis
    using a b c d by (intro conjI) assumption+
qed

text \<open>Two mirrors with different scores are ranked the same way in either order.\<close>

theorem ranking_deterministic_witness:
  "mset [\<lparr> mirror_name = ''Registry_1'', mirror = ''https://a.example'', insecure = False,
            connectivity_success = True, connectivity_time = Fl (1 / 5),
            hub_success = True, hub_time = Fl (2 / 5), total_score = Fl (4 / 5),
            status = ''Working'' \<rparr>,
         \<lparr> mirror_name = ''Registry_2'', mirror = ''https://b.example'', insecure = False,
            connectivity_success = True, connectivity_time = Fl (1 / 10),
            hub_success = True, hub_time = Fl (1 / 5), total_score = Fl (2 / 5),
            status = ''Working'' \<rparr>]
   = mset [\<lparr> mirror_name = ''Registry_2'', mirror = ''https://b.example'', insecure = False,
            connectivity_success = True, connectivity_time = Fl (1 / 10),
            hub_success = True, hub_time = Fl (1 / 5), total_score = Fl (2 / 5),
            status = ''Working'' \<rparr>,
         \<lparr> mirror_name = ''Registry_1'', mirror = ''https://a.example'', insecure = False,
            connectivity_success = True, connectivity_time = Fl (1 / 5),
            hub_success = True, hub_time = Fl (2 / 5), total_score = Fl (4 / 5),
            status = ''Working'' \<rparr>]
   \<and> map mirror_name (working_results
        [\<lparr> mirror_name = ''Registry_1'', mirror = ''https://a.example'', insecure = False,
            connectivity_success = True, connectivity_time = Fl (1 / 5),
            hub_success = True, hub_time = Fl (2 / 5), total_score = Fl (4 / 5),
            status = ''Working'' \<rparr>,
         \<lparr> mirror_name = ''Registry_2'', mirror = ''https://b.example'', insecure = False,
            connectivity_success = True, connectivity_time = Fl (1 / 10),
            hub_success = True, hub_time = Fl (1 / 5), total_score = Fl (2 / 5),
            status = ''Working'' \<rparr>])
     = [''Registry_2'', ''Registry_1'']
   \<and> working_results
        [\<lparr> mirror_name = ''Registry_1'', mirror = ''https://a.example'', insecure = False,
            connectivity_success = True, connectivity_time = Fl (1 / 5),
            hub_success = True, hub_time = Fl (2 / 5), total_score = Fl (4 / 5),
            status = ''Working'' \<rparr>,
         \<lparr> mirror_name = ''Registry_2'', mirror = ''https://b.example'', insecure = False,
            connectivity_success = True, connectivity_time = Fl (1 / 10),
            hub_success = True, hub_time = Fl (1 / 5), total_score = Fl (2 / 5),
            status = ''Working'' \<rparr>]
     = working_results
        [\<lparr> mirror_name = ''Registry_2'', mirror = ''https://b.example'', insecure = False,
            connectivity_success = True, connectivity_time = Fl (1 / 10),
            hub_success = True, hub_time = Fl (1 / 5), total_score = Fl (2 / 5),
            status = ''Working'' \<rparr>,
         \<lparr> mirror_name = ''Registry_1'', mirror = ''https://a.example'', insecure = False,
            connectivity_success = True, connectivity_time = Fl (1 / 5),
            hub_success = True, hub_time = Fl (2 / 5), total_score = Fl (4 / 5),
            status = ''Working'' \<rparr>]"
proof -
  let ?m1 = "\<lparr> mirror_name = ''Registry_1'', mirror = ''https://a.example'', insecure = False,
            connectivity_success = True, connectivity_time = Fl (1 / 5),
            hub_success = True, hub_time = Fl (2 / 5), total_score = Fl (4 / 5),
            status = ''Working'' \<rparr>"
  let ?m2 = "\<lparr> mirror_name = ''Registry_2'', mirror = ''https://b.example'', insecure = False,
            connectivity_success = True, connectivity_time = Fl (1 / 10),
            hub_success = True, hub_time = Fl (1 / 5), total_score = Fl (2 / 5),
            status = ''Working'' \<rparr>"
  have perm: "mset [?m1, ?m2] = mset [?m2, ?m1]" by simp
  have inj: "inj_on total_score (set (filter (\<lambda>r. status r = ''Working'') [?m1, ?m2]))"
    by simp
  have eq: "working_results [?m1, ?m2] = working_results [?m2, ?m1]"
    using ranking_deterministic [of "[]" "[]" "[?m1, ?m2]" "[?m2, ?m1]"] perm inj by blast
  have "map mirror_name (working_results [?m1, ?m2]) = [''Registry_2'', ''Registry_1'']"
    by (simp add: working_results_def)
  with perm eq show ?thesis by blast
qed

text \<open>C1 as stated fails. Two servers that answer every lookup in the same time get the
  same statistics and the same sort key; the ranked list then follows the order in
  which their tests completed. Two mirrors with the same score are ranked in the order
  of the list given.\<close>

theorem ranking_follows_arrival_on_ties:
  "map name (working_servers (projr (fst (test_all_dns_servers
      (init_selector
         [(''a'', \<lparr> info_primary = Some ''1.1.1.1'', info_secondary = None \<rparr>),
          (''b'', \<lparr> info_primary = Some ''2.2.2.2'', info_secondary = None \<rparr>)])
      (\<lambda>s d t. \<lparr> t_start = 0, outcome = Completed 0 '''', t_end = 1 / 10 \<rparr>) 5 [0, 1]))))
     = [''a'', ''b'']
   \<and> map name (working_servers (projr (fst (test_all_dns_servers
      (init_selector
         [(''a'', \<lparr> info_primary = Some ''1.1.1.1'', info_secondary = None \<rparr>),
          (''b'', \<lparr> info_primary = Some ''2.2.2.2'', info_secondary = None \<rparr>)])
      (\<lambda>s d t. \<lparr> t_start = 0, outcome = Completed 0 '''', t_end = 1 / 10 \<rparr>) 5 [1, 0]))))
     = [''b'', ''a'']
   \<and> mset (projr (fst (test_all_dns_servers
      (init_selector
         [(''a'', \<lparr> info_primary = Some ''1.1.1.1'', info_secondary = None \<rparr>),
          (''b'', \<lparr> info_primary = Some ''2.2.2.2'', info_secondary = None \<rparr>)])
      (\<lambda>s d t. \<lparr> t_start = 0, outcome = Completed 0 '''', t_end = 1 / 10 \<rparr>) 5 [0, 1])))
     = mset (projr (fst (test_all_dns_servers
      (init_selector
         [(''a'', \<lparr> info_primary = Some ''1.1.1.1'', info_secondary = None \<rparr>),
          (''b'', \<lparr> info_primary = Some ''2.2.2.2'', info_secondary = None \<rparr>)])
      (\<lambda>s d t. \<lparr> t_start = 0, outcome = Completed 0 '''', t_end = 1 / 10 \<rparr>) 5 [1, 0])))
   \<and> map mirror_name (working_results
        [\<lparr> mirror_name = ''Registry_1'', mirror = ''https://a.example'', insecure = False,
            connectivity_success = True, connectivity_time = Fl (1 / 5),
            hub_success = True, hub_time = Fl (2 / 5), total_score = Fl (4 / 5),
            status = ''Working'' \<rparr>,
         \<lparr> mirror_name = ''Registry_2'', mirror = ''https://b.example'', insecure = False,
            connectivity_success = True, connectivity_time = Fl (1 / 5),
            hub_success = True, hub_time = Fl (2 / 5), total_score = Fl (4 / 5),
            status = ''Working'' \<rparr>])
     = [''Registry_1'', ''Registry_2'']
   \<and> map mirror_name (working_results
        [\<lparr> mirror_name = ''Registry_2'', mirror = ''https://b.example'', insecure = False,
            connectivity_success = True, connectivity_time = Fl (1 / 5),
            hub_success = True, hub_time = Fl (2 / 5), total_score = Fl (4 / 5),
            status = ''Working'' \<rparr>,
         \<lparr> mirror_name = ''Registry_1'', mirror = ''https://a.example'', insecure = False,
            connectivity_success = True, connectivity_time = Fl (1 / 5),
            hub_success = True, hub_time = Fl (2 / 5), total_score = Fl (4 / 5),
            status = ''Working'' \<rparr>])
     = [''Registry_2'', ''Registry_1'']"
  by (simp add: test_all_closed submit_pair returned_def dns_server_closed init_selector_def
      successes_def details_of_def test_dns_resolution_def rate_def favg_def fsum_def
      working_servers_def working_results_def dns_sort_key_def)

subsection \<open>The registry ranking\<close>

lemma fst_test_all_registries:
  "fst (test_all_registries net regs) = map (\<lambda>reg. fst (test_single_registry net reg)) regs"
  by (induction regs) (simp_all add: case_prod_beta)

lemma registry_choose_extends:
  "\<exists>tl. snd (registry_choose ws stdin evs) = evs @ tl"
proof (induction ws stdin evs rule: registry_choose.induct)
  case (1 ws evs)
  show ?case by simp
next
  case (2 ws rest evs)
  show ?case by simp
next
  case (3 ws l rest evs)
  show ?case
  proof (cases "lower (strip l) = ''q'' \<or> lower (strip l) = ''0''")
    case True
    then show ?thesis by (auto simp add: Let_def)
  next
    case notq: False
    show ?thesis
    proof (cases "py_int (lower (strip l))")
      case (Inl e)
      with notq "3.IH"(1) [OF refl refl] show ?thesis
        by (auto simp add: Let_def)
    next
      case (Inr k)
      show ?thesis
      proof (cases "1 \<le> k \<and> k \<le> int (length ws)")
        case True
        show ?thesis
        proof (cases rest)
          case Nil
          with notq Inr True show ?thesis by (simp add: Let_def)
        next
          case (Cons ev rest')
          show ?thesis
          proof (cases ev)
            case Interrupt
            with Cons notq Inr True show ?thesis by (simp add: Let_def)
          next
            case (Line c)
            show ?thesis
            proof (cases "lower (strip c) \<in> set [''y'', ''yes'']")
              case yes: True
              with Line Cons notq Inr True show ?thesis
                by (simp add: Let_def)
            next
              case no: False
              with Line Cons notq Inr True "3.IH"(2) [OF refl refl _ _ Inr _ refl refl Cons Line]
              show ?thesis
                by (auto simp add: Let_def)
            qed
          qed
        qed
      next
        case False
        with notq Inr "3.IH"(3) [OF refl refl _ _ Inr] show ?thesis
          by (auto simp add: Let_def)
      qed
    qed
  qed
qed

lemma display_reports_failed:
  assumes "x \<in> set results" "status x \<noteq> ''Working''"
  shows "(if working_results results = []
          then Print_summary (mirror_name x) (mirror x) (connectivity_success x) (hub_success x)
          else Print_failed_mirror (mirror_name x) (mirror x) (status x))
         \<in> set (snd (display_results_and_choose results stdin))"
proof (cases "working_results results = []")
  case True
  with assms show ?thesis
    by (auto simp add: display_results_and_choose_def)
next
  case False
  let ?evs = "map (\<lambda>r. Print_failed_mirror (mirror_name r) (mirror r) (status r))
                (failed_results results)
              @ (case working_results results of
                   [] \<Rightarrow> []
                 | best_mirror # _ \<Rightarrow> [Print_fastest (mirror_name best_mirror)])"
  obtain tl where "snd (registry_choose (working_results results) stdin ?evs) = ?evs @ tl"
    using registry_choose_extends by blast
  moreover have "Print_failed_mirror (mirror_name x) (mirror x) (status x) \<in> set ?evs"
    using assms by (auto simp add: failed_results_def)
  ultimately show ?thesis
    using False by (simp add: display_results_and_choose_def)
qed

text \<open>
  C5. In a record \<open>_test_single_registry\<close> returns, the status is \<open>'Working'\<close> exactly when
  both checks succeeded, and then the score is the connectivity time plus 1.5 times the
  hub time; when either check failed the score stays \<open>inf\<close> and the status names the
  failure. The ranked list holds exactly the \<open>'Working'\<close> results, in ascending order of
  score, and every other result is reported apart: in the list of failed mirrors with
  its status, or in the test summary when no mirror works. For a mirror M with
  connectivity 0.2 s and hub 0.4 s and a mirror N with connectivity 0.1 s and a failed
  hub check, the score of M is 0.8, the ranked list is \<open>[M]\<close> and N is reported as
  \<open>'Hub Access Failed'\<close>.
\<close>

theorem registry_score_and_ranking:
  "(status (fst (test_single_registry net reg)) = ''Working''
      \<longleftrightarrow> connectivity_success (fst (test_single_registry net reg))
          \<and> hub_success (fst (test_single_registry net reg)))
   \<and> (connectivity_success (fst (test_single_registry net reg))
        \<and> hub_success (fst (test_single_registry net reg))
      \<longrightarrow> (\<exists>c h. connectivity_time (fst (test_single_registry net reg)) = Fl c
             \<and> hub_time (fst (test_single_registry net reg)) = Fl h
             \<and> total_score (fst (test_single_registry net reg)) = Fl (c + 3 / 2 * h)))
   \<and> (\<not> (connectivity_success (fst (test_single_registry net reg))
          \<and> hub_success (fst (test_single_registry net reg)))
      \<longrightarrow> total_score (fst (test_single_registry net reg)) = PInf
          \<and> status (fst (test_single_registry net reg))
              \<in> {''Hub Access Failed'', ''Connection Failed''})
   \<and> set (working_results results) = {x \<in> set results. status x = ''Working''}
   \<and> sorted (map total_score (working_results results))
   \<and> (\<forall>x \<in> set results. status x \<noteq> ''Working'' \<longrightarrow>
         x \<notin> set (working_results results)
         \<and> (if working_results results = []
             then Print_summary (mirror_name x) (mirror x) (connectivity_success x) (hub_success x)
             else Print_failed_mirror (mirror_name x) (mirror x) (status x))
            \<in> set (snd (display_results_and_choose results stdin)))
   \<and> (fst (test_registry_connectivity net (reg_mirror M) 10) = (True, Fl (1 / 5))
        \<and> fst (test_docker_hub_connectivity net (reg_mirror M) 15) = (True, Fl (2 / 5))
        \<and> fst (test_registry_connectivity net (reg_mirror N) 10) = (True, Fl (1 / 10))
        \<and> fst (test_docker_hub_connectivity net (reg_mirror N) 15) = (False, PInf)
      \<longrightarrow> total_score (fst (test_single_registry net M)) = Fl (4 / 5)
          \<and> status (fst (test_single_registry net N)) = ''Hub Access Failed''
          \<and> working_results (fst (test_all_registries net [M, N]))
              = [fst (test_single_registry net M)]
          \<and> working_results (fst (test_all_registries net [N, M]))
              = [fst (test_single_registry net M)]
          \<and> Print_failed_mirror (reg_name N) (reg_mirror N) ''Hub Access Failed''
              \<in> set (snd (display_results_and_choose
                            (fst (test_all_registries net [M, N])) stdin)))"
proof -
  let ?r = "fst (test_single_registry net reg)"
  consider
      (down) "fst (test_registry_connectivity net (reg_mirror reg) 10) = (False, PInf)"
    | (nohub) t where "fst (test_registry_connectivity net (reg_mirror reg) 10) = (True, Fl t)"
        "fst (test_docker_hub_connectivity net (reg_mirror reg) 15) = (False, PInf)"
    | (up) t h where "fst (test_registry_connectivity net (reg_mirror reg) 10) = (True, Fl t)"
        "fst (test_docker_hub_connectivity net (reg_mirror reg) 15) = (True, Fl h)"
    using registry_probe_fst_cases [of net "reg_mirror reg" 10]
      hub_probe_fst_cases [of net "reg_mirror reg" 15]
    by blast
  then have abc: "(status ?r = ''Working'' \<longleftrightarrow> connectivity_success ?r \<and> hub_success ?r)
     \<and> (connectivity_success ?r \<and> hub_success ?r
        \<longrightarrow> (\<exists>c h. connectivity_time ?r = Fl c \<and> hub_time ?r = Fl h
               \<and> total_score ?r = Fl (c + 3 / 2 * h)))
     \<and> (\<not> (connectivity_success ?r \<and> hub_success ?r)
        \<longrightarrow> total_score ?r = PInf
            \<and> status ?r \<in> {''Hub Access Failed'', ''Connection Failed''})"
  proof cases
    case down
    then show ?thesis by (simp add: single_registry_closed)
  next
    case nohub
    then show ?thesis by (simp add: single_registry_closed)
  next
    case up
    then show ?thesis by (simp add: single_registry_closed mult.commute)
  qed
  have d: "set (working_results results) = {x \<in> set results. status x = ''Working''}"
    by (rule set_working_results)
  have e: "sorted (map total_score (working_results results))"
    by (simp add: working_results_def)
  have f: "\<forall>x \<in> set results. status x \<noteq> ''Working'' \<longrightarrow>
         x \<notin> set (working_results results)
         \<and> (if working_results results = []
             then Print_summary (mirror_name x) (mirror x) (connectivity_success x) (hub_success x)
             else Print_failed_mirror (mirror_name x) (mirror x) (status x))
            \<in> set (snd (display_results_and_choose results stdin))"
    using display_reports_failed [of _ results stdin] by (simp add: set_working_results)
  have g: "fst (test_registry_connectivity net (reg_mirror M) 10) = (True, Fl (1 / 5))
        \<and> fst (test_docker_hub_connectivity net (reg_mirror M) 15) = (True, Fl (2 / 5))
        \<and> fst (test_registry_connectivity net (reg_mirror N) 10) = (True, Fl (1 / 10))
        \<and> fst (test_docker_hub_connectivity net (reg_mirror N) 15) = (False, PInf)
      \<longrightarrow> total_score (fst (test_single_registry net M)) = Fl (4 / 5)
          \<and> status (fst (test_single_registry net N)) = ''Hub Access Failed''
          \<and> working_results (fst (test_all_registries net [M, N]))
              = [fst (test_single_registry net M)]
          \<and> working_results (fst (test_all_registries net [N, M]))
              = [fst (test_single_registry net M)]
          \<and> Print_failed_mirror (reg_name N) (reg_mirror N) ''Hub Access Failed''
              \<in> set (snd (display_results_and_choose
                            (fst (test_all_registries net [M, N])) stdin))"
  proof
    assume h: "fst (test_registry_connectivity net (reg_mirror M) 10) = (True, Fl (1 / 5))
        \<and> fst (test_docker_hub_connectivity net (reg_mirror M) 15) = (True, Fl (2 / 5))
        \<and> fst (test_registry_connectivity net (reg_mirror N) 10) = (True, Fl (1 / 10))
        \<and> fst (test_docker_hub_connectivity net (reg_mirror N) 15) = (False, PInf)"
    let ?m = "fst (test_single_registry net M)"
    let ?n = "fst (test_single_registry net N)"
    from h have m: "status ?m = ''Working''" "total_score ?m = Fl (4 / 5)"
      by (simp_all add: single_registry_closed)
    from h have n: "status ?n = ''Hub Access Failed''" "mirror_name ?n = reg_name N"
        "mirror ?n = reg_mirror N"
      by (simp_all add: single_registry_closed)
    have mn: "working_results [?m, ?n] = [?m]" and nm: "working_results [?n, ?m] = [?m]"
      using m n by (simp_all add: working_results_def)
    have "?n \<in> set [?m, ?n]" "status ?n \<noteq> ''Working''"
      using n by simp_all
    from display_reports_failed [OF this, of stdin] mn n
    have "Print_failed_mirror (reg_name N) (reg_mirror N) ''Hub Access Failed''
        \<in> set (snd (display_results_and_choose [?m, ?n] stdin))"
      by simp
    moreover have "fst (test_all_registries net [M, N]) = [?m, ?n]"
        "fst (test_all_registries net [N, M]) = [?n, ?m]"
      by (simp_all add: fst_test_all_registries del: test_all_registries.simps)
    ultimately
    show "total_score (fst (test_single_registry net M)) = Fl (4 / 5)
          \<and> status (fst (test_single_registry net N)) = ''Hub Access Failed''
          \<and> working_results (fst (test_all_registries net [M, N]))
              = [fst (test_single_registry net M)]
          \<and> working_results (fst (test_all_registries net [N, M]))
              = [fst (test_single_registry net M)]
          \<and> Print_failed_mirror (reg_name N) (reg_mirror N) ''Hub Access Failed''
              \<in> set (snd (display_results_and_choose
                            (fst (test_all_registries net [M, N])) stdin))"
      using m n mn nm by (simp del: test_all_registries.simps)
  qed
  note a = abc [THEN conjunct1]
    and b = abc [THEN conjunct2, THEN conjunct1]
    and c = abc [THEN conjunct2, THEN conjunct2]
  show ?thesis
    using a b c d e f g by (intro conjI) assumption+
qed

text \<open>The scenario from the network up: mirror M answers \<open>/v2/\<close> in 0.2 s and the
  manifest request in 0.4 s; mirror N answers \<open>/v2/\<close> with a 401 in 0.1 s and times out
  on the manifest request. The operator quits at the prompt.\<close>

theorem registry_score_and_ranking_witness:
  "map (\<lambda>r. (mirror_name r, status r, total_score r))
     (fst (test_all_registries
        (\<lambda>u h t. if startswith u ''https://m.example''
                  then \<lparr> q_start = 1, q_outcome = Response 200,
                         q_end = (if h = [] then 6 / 5 else 7 / 5) \<rparr>
                  else \<lparr> q_start = 1,
                         q_outcome = (if h = [] then Response 401 else Request_failed TimeoutExpired),
                         q_end = 11 / 10 \<rparr>)
        [\<lparr> reg_name = ''Registry_1'', reg_mirror = ''https://m.example'', reg_insecure = False \<rparr>,
         \<lparr> reg_name = ''Registry_2'', reg_mirror = ''n.example/'', reg_insecure = True \<rparr>]))
     = [(''Registry_1'', ''Working'', Fl (4 / 5)), (''Registry_2'', ''Hub Access Failed'', PInf)]
   \<and> map mirror_name (working_results (fst (test_all_registries
        (\<lambda>u h t. if startswith u ''https://m.example''
                  then \<lparr> q_start = 1, q_outcome = Response 200,
                         q_end = (if h = [] then 6 / 5 else 7 / 5) \<rparr>
                  else \<lparr> q_start = 1,
                         q_outcome = (if h = [] then Response 401 else Request_failed TimeoutExpired),
                         q_end = 11 / 10 \<rparr>)
        [\<lparr> reg_name = ''Registry_1'', reg_mirror = ''https://m.example'', reg_insecure = False \<rparr>,
         \<lparr> reg_name = ''Registry_2'', reg_mirror = ''n.example/'', reg_insecure = True \<rparr>])))
     = [''Registry_1'']
   \<and> display_results_and_choose (fst (test_all_registries
        (\<lambda>u h t. if startswith u ''https://m.example''
                  then \<lparr> q_start = 1, q_outcome = Response 200,
                         q_end = (if h = [] then 6 / 5 else 7 / 5) \<rparr>
                  else \<lparr> q_start = 1,
                         q_outcome = (if h = [] then Response 401 else Request_failed TimeoutExpired),
                         q_end = 11 / 10 \<rparr>)
        [\<lparr> reg_name = ''Registry_1'', reg_mirror = ''https://m.example'', reg_insecure = False \<rparr>,
         \<lparr> reg_name = ''Registry_2'', reg_mirror = ''n.example/'', reg_insecure = True \<rparr>]))
        [Line ''q'']
     = (Inr None,
        [Print_failed_mirror ''Registry_2'' ''n.example/'' ''Hub Access Failed'',
         Print_fastest ''Registry_1'', Prompt 1, Print_cancelled])"
proof -
  let ?net = "\<lambda>u h t. if startswith u ''https://m.example''
                  then \<lparr> q_start = 1, q_outcome = Response 200,
                         q_end = (if h = [] then 6 / 5 else 7 / 5) \<rparr>
                  else \<lparr> q_start = 1,
                         q_outcome = (if h = [] then Response 401 else Request_failed TimeoutExpired),
                         q_end = 11 / 10 \<rparr>"
  let ?M = "\<lparr> reg_name = ''Registry_1'', reg_mirror = ''https://m.example'', reg_insecure = False \<rparr>"
  let ?N = "\<lparr> reg_name = ''Registry_2'', reg_mirror = ''n.example/'', reg_insecure = True \<rparr>"
  have probes: "fst (test_registry_connectivity ?net (reg_mirror ?M) 10) = (True, Fl (1 / 5))
        \<and> fst (test_docker_hub_connectivity ?net (reg_mirror ?M) 15) = (True, Fl (2 / 5))
        \<and> fst (test_registry_connectivity ?net (reg_mirror ?N) 10) = (True, Fl (1 / 10))
        \<and> fst (test_docker_hub_connectivity ?net (reg_mirror ?N) 15) = (False, PInf)"
    by (simp add: registry_probe_eq hub_probe_eq v2_request_def manifest_request_def
        base_url_def rstrip_slash_def startswith_def manifest_headers_def)
  have rs: "fst (test_all_registries ?net [?M, ?N])
      = [fst (test_single_registry ?net ?M), fst (test_single_registry ?net ?N)]"
    by (simp add: fst_test_all_registries del: test_all_registries.simps)
  from registry_score_and_ranking [of ?net ?M "[]" "[]" ?M ?N] probes
  have ranked: "working_results (fst (test_all_registries ?net [?M, ?N]))
      = [fst (test_single_registry ?net ?M)]"
    by blast
  have m: "fst (test_single_registry ?net ?M)
      = \<lparr> mirror_name = ''Registry_1'', mirror = ''https://m.example'', insecure = False,
          connectivity_success = True, connectivity_time = Fl (1 / 5),
          hub_success = True, hub_time = Fl (2 / 5), total_score = Fl (4 / 5),
          status = ''Working'' \<rparr>"
    using probes by (simp add: single_registry_closed)
  have n: "fst (test_single_registry ?net ?N)
      = \<lparr> mirror_name = ''Registry_2'', mirror = ''n.example/'', insecure = True,
          connectivity_success = True, connectivity_time = Fl (1 / 10),
          hub_success = False, hub_time = PInf, total_score = PInf,
          status = ''Hub Access Failed'' \<rparr>"
    using probes by (simp add: single_registry_closed)
  have quit: "lower (strip ''q'') = ''q''"
    by (simp add: lower_def strip_def is_space_def lower_char_def)
  have shown: "display_results_and_choose (fst (test_all_registries ?net [?M, ?N])) [Line ''q'']
     = (Inr None,
        [Print_failed_mirror ''Registry_2'' ''n.example/'' ''Hub Access Failed'',
         Print_fastest ''Registry_1'', Prompt 1, Print_cancelled])"
    unfolding display_results_and_choose_def ranked
    unfolding rs m n
    by (simp add: failed_results_def quit)
  have stats: "map (\<lambda>r. (mirror_name r, status r, total_score r))
       (fst (test_all_registries ?net [?M, ?N]))
     = [(''Registry_1'', ''Working'', Fl (4 / 5)), (''Registry_2'', ''Hub Access Failed'', PInf)]"
    unfolding rs m n by simp
  have names: "map mirror_name (working_results (fst (test_all_registries ?net [?M, ?N])))
     = [''Registry_1'']"
    unfolding ranked m by simp
  from stats names shown show ?thesis
    by (intro conjI)
qed

subsection \<open>The selection prompt\<close>

lemma py_int_error:
  "py_int s = Inl e \<Longrightarrow> e = ValueError"
  by (auto simp add: py_int_def split: list.splits if_splits option.splits)

lemma dns_choose_invalid:
  "invalid_choice (length ws) l \<Longrightarrow>
   dns_choose ws (Line l # rest) evs
     = dns_choose ws rest (evs @ [Prompt (length ws), complaint (length ws) l])"
  by (cases "py_int (lower (strip l))")
    (auto simp add: invalid_choice_def complaint_def Let_def dest: py_int_error)

lemma registry_choose_invalid:
  "invalid_choice (length ws) l \<Longrightarrow> lower (strip l) \<noteq> ''0'' \<Longrightarrow>
   registry_choose ws (Line l # rest) evs
     = registry_choose ws rest (evs @ [Prompt (length ws), complaint (length ws) l])"
  by (cases "py_int (lower (strip l))")
    (auto simp add: invalid_choice_def complaint_def Let_def dest: py_int_error)

lemma dns_choose_reprompts:
  "\<forall>l \<in> set bad. invalid_choice (length ws) l \<Longrightarrow>
   dns_choose ws (map Line bad @ rest) evs
     = dns_choose ws rest (evs @ reprompts (length ws) bad)"
proof (induction bad arbitrary: evs)
  case Nil
  show ?case by (simp add: reprompts_def)
next
  case (Cons l bad)
  then have "dns_choose ws (map Line (l # bad) @ rest) evs
      = dns_choose ws (map Line bad @ rest) (evs @ [Prompt (length ws), complaint (length ws) l])"
    by (simp add: dns_choose_invalid del: dns_choose.simps)
  also have "\<dots> = dns_choose ws rest
      ((evs @ [Prompt (length ws), complaint (length ws) l]) @ reprompts (length ws) bad)"
    using Cons by simp
  finally show ?case by (simp add: reprompts_def)
qed

lemma registry_choose_reprompts:
  "\<forall>l \<in> set bad. invalid_choice (length ws) l \<and> lower (strip l) \<noteq> ''0'' \<Longrightarrow>
   registry_choose ws (map Line bad @ rest) evs
     = registry_choose ws rest (evs @ reprompts (length ws) bad)"
proof (induction bad arbitrary: evs)
  case Nil
  show ?case by (simp add: reprompts_def)
next
  case (Cons l bad)
  then have "registry_choose ws (map Line (l # bad) @ rest) evs
      = registry_choose ws (map Line bad @ rest)
          (evs @ [Prompt (length ws), complaint (length ws) l])"
    by (simp add: registry_choose_invalid del: registry_choose.simps)
  also have "\<dots> = registry_choose ws rest
      ((evs @ [Prompt (length ws), complaint (length ws) l]) @ reprompts (length ws) bad)"
    using Cons by simp
  finally show ?case by (simp add: reprompts_def)
qed

lemma quit_is_no_number:
  "py_int ''q'' = Inl ValueError" "py_int ''0'' = Inr 0"
  by (simp_all add: py_int_def unsigned_def digit_of_def)

lemma out_of_range_invalid:
  assumes "py_int (lower (strip l)) = Inr k" "\<not> (1 \<le> k \<and> k \<le> int n)"
  shows "invalid_choice n l" "complaint n l = Print_out_of_range n"
  using assms quit_is_no_number(1)
  by (auto simp add: invalid_choice_def complaint_def)

text \<open>
  C8, as the code has it. In both selectors a run of lines that are neither the quit
  token nor an index into the ranked list is answered line by line with a message and a
  new prompt, and the loop goes on with the next input. After such a run, the quit token
  \<open>q\<close> (in any case, with blanks around it) makes the selector return \<open>None\<close> at once;
  so does \<open>0\<close> in the registry selector, and a valid index makes the DNS selector return
  the addresses of the entry chosen. An interrupt at the prompt makes the DNS selector
  return \<open>None\<close>; the registry selector does not handle it, and \<open>KeyboardInterrupt\<close>
  leaves \<open>display_results_and_choose\<close> for its caller. An out-of-range index followed by
  \<open>q\<close> gives one message, one new prompt and then \<open>None\<close>, in both.
\<close>

theorem selection_prompt:
  "((\<forall>l \<in> set bad. invalid_choice (length ws) l) \<and> lower (strip q) = ''q'' \<longrightarrow>
      dns_choose ws (map Line bad @ Line q # rest) evs
        = (Inr None, evs @ reprompts (length ws) bad @ [Prompt (length ws), Print_cancelled]))
   \<and> ((\<forall>l \<in> set bad. invalid_choice (length ws) l) \<longrightarrow>
      dns_choose ws (map Line bad @ Interrupt # rest) evs
        = (Inr None, evs @ reprompts (length ws) bad @ [Prompt (length ws), Print_cancelled]))
   \<and> ((\<forall>l \<in> set bad. invalid_choice (length ws) l)
        \<and> py_int (lower (strip c)) = Inr k \<and> 1 \<le> k \<and> k \<le> int (length ws) \<longrightarrow>
      fst (dns_choose ws (map Line bad @ Line c # rest) evs)
        = Inr (Some (primary (ws ! nat (k - 1)), secondary (ws ! nat (k - 1)))))
   \<and> ((\<forall>l \<in> set bad. invalid_choice (length ms) l \<and> lower (strip l) \<noteq> ''0'')
        \<and> (lower (strip q) = ''q'' \<or> lower (strip q) = ''0'') \<longrightarrow>
      registry_choose ms (map Line bad @ Line q # rest) evs
        = (Inr None, evs @ reprompts (length ms) bad
             @ [Prompt (length ms),
                if lower (strip q) = ''q'' then Print_cancelled else Print_skipped]))
   \<and> ((\<forall>l \<in> set bad. invalid_choice (length ms) l \<and> lower (strip l) \<noteq> ''0'') \<longrightarrow>
      registry_choose ms (map Line bad @ Interrupt # rest) evs
        = (Inl KeyboardInterrupt, evs @ reprompts (length ms) bad @ [Prompt (length ms)]))
   \<and> (py_int (lower (strip c)) = Inr k \<and> \<not> (1 \<le> k \<and> k \<le> int (length ws)) \<longrightarrow>
      dns_choose ws [Line c, Line ''q''] []
        = (Inr None, [Prompt (length ws), Print_out_of_range (length ws),
                      Prompt (length ws), Print_cancelled]))
   \<and> (py_int (lower (strip c)) = Inr k \<and> \<not> (1 \<le> k \<and> k \<le> int (length ms))
        \<and> lower (strip c) \<noteq> ''0'' \<longrightarrow>
      registry_choose ms [Line c, Line ''q''] []
        = (Inr None, [Prompt (length ms), Print_out_of_range (length ms),
                      Prompt (length ms), Print_cancelled]))"
proof -
  have q: "lower (strip ''q'') = ''q''"
    by (simp add: lower_def strip_def is_space_def lower_char_def)
  have a: "(\<forall>l \<in> set bad. invalid_choice (length ws) l) \<and> lower (strip q) = ''q'' \<longrightarrow>
      dns_choose ws (map Line bad @ Line q # rest) evs
        = (Inr None, evs @ reprompts (length ws) bad @ [Prompt (length ws), Print_cancelled])"
    by (simp add: dns_choose_reprompts)
  have b: "(\<forall>l \<in> set bad. invalid_choice (length ws) l) \<longrightarrow>
      dns_choose ws (map Line bad @ Interrupt # rest) evs
        = (Inr None, evs @ reprompts (length ws) bad @ [Prompt (length ws), Print_cancelled])"
    by (simp add: dns_choose_reprompts)
  have c: "(\<forall>l \<in> set bad. invalid_choice (length ws) l)
        \<and> py_int (lower (strip c)) = Inr k \<and> 1 \<le> k \<and> k \<le> int (length ws) \<longrightarrow>
      fst (dns_choose ws (map Line bad @ Line c # rest) evs)
        = Inr (Some (primary (ws ! nat (k - 1)), secondary (ws ! nat (k - 1))))"
    using quit_is_no_number(1) by (auto simp add: dns_choose_reprompts Let_def)
  have d: "(\<forall>l \<in> set bad. invalid_choice (length ms) l \<and> lower (strip l) \<noteq> ''0'')
        \<and> (lower (strip q) = ''q'' \<or> lower (strip q) = ''0'') \<longrightarrow>
      registry_choose ms (map Line bad @ Line q # rest) evs
        = (Inr None, evs @ reprompts (length ms) bad
             @ [Prompt (length ms),
                if lower (strip q) = ''q'' then Print_cancelled else Print_skipped])"
    by (auto simp add: registry_choose_reprompts)
  have e: "(\<forall>l \<in> set bad. invalid_choice (length ms) l \<and> lower (strip l) \<noteq> ''0'') \<longrightarrow>
      registry_choose ms (map Line bad @ Interrupt # rest) evs
        = (Inl KeyboardInterrupt, evs @ reprompts (length ms) bad @ [Prompt (length ms)])"
    by (simp add: registry_choose_reprompts)
  have f: "py_int (lower (strip c)) = Inr k \<and> \<not> (1 \<le> k \<and> k \<le> int (length ws)) \<longrightarrow>
      dns_choose ws [Line c, Line ''q''] []
        = (Inr None, [Prompt (length ws), Print_out_of_range (length ws),
                      Prompt (length ws), Print_cancelled])"
  proof
    assume h: "py_int (lower (strip c)) = Inr k \<and> \<not> (1 \<le> k \<and> k \<le> int (length ws))"
    then have "invalid_choice (length ws) c"
        "complaint (length ws) c = Print_out_of_range (length ws)"
      using out_of_range_invalid [of c k "length ws"] by blast+
    then show "dns_choose ws [Line c, Line ''q''] []
        = (Inr None, [Prompt (length ws), Print_out_of_range (length ws),
                      Prompt (length ws), Print_cancelled])"
      using dns_choose_reprompts [of "[c]" ws "[Line ''q'']" "[]"] q
      by (simp add: reprompts_def)
  qed
  have g: "py_int (lower (strip c)) = Inr k \<and> \<not> (1 \<le> k \<and> k \<le> int (length ms))
        \<and> lower (strip c) \<noteq> ''0'' \<longrightarrow>
      registry_choose ms [Line c, Line ''q''] []
        = (Inr None, [Prompt (length ms), Print_out_of_range (length ms),
                      Prompt (length ms), Print_cancelled])"
  proof
    assume h: "py_int (lower (strip c)) = Inr k \<and> \<not> (1 \<le> k \<and> k \<le> int (length ms))
        \<and> lower (strip c) \<noteq> ''0''"
    then have "invalid_choice (length ms) c"
        "complaint (length ms) c = Print_out_of_range (length ms)"
      using out_of_range_invalid [of c k "length ms"] by blast+
    then show "registry_choose ms [Line c, Line ''q''] []
        = (Inr None, [Prompt (length ms), Print_out_of_range (length ms),
                      Prompt (length ms), Print_cancelled])"
      using registry_choose_reprompts [of "[c]" ms "[Line ''q'']" "[]"] q h
      by (simp add: reprompts_def)
  qed
  show ?thesis
    using a b c d e f g by (intro conjI) assumption+
qed

text \<open>One ranked entry; the operator types an index that is out of range, then something
  that is no number, then quits (the DNS selector) or interrupts (the registry
  selector).\<close>

theorem selection_prompt_witness:
  "invalid_choice 1 ''7'' \<and> invalid_choice 1 ''abc'' \<and> lower (strip '' Q '') = ''q''
   \<and> dns_choose
        [\<lparr> docker_success_count = 0, docker_total_time = Fl 0, docker_avg_time = PInf,
            docker_success_rate = 0, docker_working = False, docker_details = [],
            name = ''google'', primary = ''8.8.8.8'', secondary = ''8.8.4.4'',
            success_count = 4, total_time = Fl (2 / 5), avg_time = Fl (1 / 10),
            success_rate = 100, working = True \<rparr>]
        [Line ''7'', Line ''abc'', Line '' Q ''] []
      = (Inr None, [Prompt 1, Print_out_of_range 1, Prompt 1, Print_invalid,
                    Prompt 1, Print_cancelled])
   \<and> registry_choose
        [\<lparr> mirror_name = ''Registry_1'', mirror = ''https://a.example'', insecure = False,
            connectivity_success = True, connectivity_time = Fl (1 / 5),
            hub_success = True, hub_time = Fl (2 / 5), total_score = Fl (4 / 5),
            status = ''Working'' \<rparr>]
        [Line ''7'', Line ''abc'', Interrupt] []
      = (Inl KeyboardInterrupt, [Prompt 1, Print_out_of_range 1, Prompt 1, Print_invalid,
                                 Prompt 1])"
proof -
  let ?ws = "[\<lparr> docker_success_count = 0, docker_total_time = Fl 0, docker_avg_time = PInf,
            docker_success_rate = 0, docker_working = False, docker_details = [],
            name = ''google'', primary = ''8.8.8.8'', secondary = ''8.8.4.4'',
            success_count = 4, total_time = Fl (2 / 5), avg_time = Fl (1 / 10),
            success_rate = 100, working = True \<rparr>]"
  let ?ms = "[\<lparr> mirror_name = ''Registry_1'', mirror = ''https://a.example'', insecure = False,
            connectivity_success = True, connectivity_time = Fl (1 / 5),
            hub_success = True, hub_time = Fl (2 / 5), total_score = Fl (4 / 5),
            status = ''Working'' \<rparr>]"
  have s7: "lower (strip ''7'') = ''7''" and sabc: "lower (strip ''abc'') = ''abc''"
    and sq: "lower (strip '' Q '') = ''q''"
    by (simp_all add: lower_def strip_def is_space_def lower_char_def)
  have p7: "py_int ''7'' = Inr 7" and pabc: "py_int ''abc'' = Inl ValueError"
    by (simp_all add: py_int_def unsigned_def digit_of_def)
  have bad: "invalid_choice 1 ''7''" "invalid_choice 1 ''abc''"
    by (simp_all add: invalid_choice_def s7 sabc p7 pabc)
  have msgs: "reprompts 1 [''7'', ''abc'']
      = [Prompt 1, Print_out_of_range 1, Prompt 1, Print_invalid]"
    by (simp add: reprompts_def complaint_def s7 sabc p7 pabc)
  have dns: "dns_choose ?ws [Line ''7'', Line ''abc'', Line '' Q ''] []
      = (Inr None, [Prompt 1, Print_out_of_range 1, Prompt 1, Print_invalid,
                    Prompt 1, Print_cancelled])"
    using selection_prompt [of "[''7'', ''abc'']" ?ws "'' Q ''" "[]" "[]"] bad sq msgs
    by (simp del: dns_choose.simps)
  have reg: "registry_choose ?ms [Line ''7'', Line ''abc'', Interrupt] []
      = (Inl KeyboardInterrupt, [Prompt 1, Print_out_of_range 1, Prompt 1, Print_invalid,
                                 Prompt 1])"
    using selection_prompt [of "[''7'', ''abc'']" "[]" "''q''" "[]" "[]" "''1''" 1 ?ms] bad msgs
      s7 sabc
    by (simp del: registry_choose.simps)
  from bad sq dns reg show ?thesis
    by (intro conjI)
qed

text \<open>C8 as stated fails. At the end of the input \<open>input()\<close> raises \<open>EOFError\<close>, which no
  handler of either selector catches; and the registry selector has no handler for an
  interrupt: both leave the function as exceptions instead of a returned \<open>None\<close>.\<close>

theorem cancellation_raises:
  "display_results_and_choose
     [\<lparr> mirror_name = ''Registry_1'', mirror = ''https://a.example'', insecure = False,
         connectivity_success = True, connectivity_time = Fl (1 / 5),
         hub_success = True, hub_time = Fl (2 / 5), total_score = Fl (4 / 5),
         status = ''Working'' \<rparr>]
     [Interrupt]
     = (Inl KeyboardInterrupt, [Print_fastest ''Registry_1'', Prompt 1])
   \<and> display_results_and_choose
     [\<lparr> mirror_name = ''Registry_1'', mirror = ''https://a.example'', insecure = False,
         connectivity_success = True, connectivity_time = Fl (1 / 5),
         hub_success = True, hub_time = Fl (2 / 5), total_score = Fl (4 / 5),
         status = ''Working'' \<rparr>]
     []
     = (Inl EOFError, [Print_fastest ''Registry_1'', Prompt 1])
   \<and> fst (select_dns_interactive
        (init_selector [(''google'', \<lparr> info_primary = Some ''8.8.8.8'', info_secondary = None \<rparr>)])
        (\<lambda>s d t. \<lparr> t_start = 0, outcome = Completed 0 '''', t_end = 1 / 10 \<rparr>) [0] [])
     = Inl EOFError"
  by (simp add: display_results_and_choose_def working_results_def failed_results_def
      select_dns_interactive_def test_all_closed submit_pair returned_def dns_server_closed
      init_selector_def successes_def test_dns_resolution_def rate_def working_servers_def)

end
